theory Spec2Isabelle
  imports Main "HOL-Library.Word"
begin

unbundle bit_operations_syntax

section \<open>The scatter context of vscatfce.c\<close>

text \<open>
  A shallow embedding of \<^verbatim>\<open>src/vec/vscat/interface/vscatfce.c\<close>: the interface layer of
  the vector scatter (\<^verbatim>\<open>VecScatterBegin\<close>, \<^verbatim>\<open>VecScatterEnd\<close>, \<^verbatim>\<open>VecScatterDestroy\<close>,
  \<^verbatim>\<open>VecScatterRemap\<close>, \<^verbatim>\<open>VecScatterInitializeForGPU\<close>).

  Conventions of the embedding.
  \<^item> \<^verbatim>\<open>PetscInt\<close> is \<open>int\<close>. Where the code computes with indices and block sizes
    (the block expansion of \<^verbatim>\<open>VecScatterInitializeForGPU\<close>) the result is cut to the 32
    bits of a \<^verbatim>\<open>PetscInt\<close> by \<open>PetscInt_of\<close>; the loop counters and the reference count
    stay far inside the range.
  \<^item> A C function that returns a \<^verbatim>\<open>PetscErrorCode\<close> and mutates its arguments in place
    returns \<open>Inr s\<close> (the state \<open>s\<close> after a return of 0) or \<open>Inl (e, s)\<close> (the error
    \<open>e\<close> raised by \<^verbatim>\<open>SETERRQ\<close> or passed on by \<^verbatim>\<open>CHKERRQ\<close>, and the state \<open>s\<close> the
    call left behind).
  \<^item> The backend operations behind \<^verbatim>\<open>ctx->ops\<close>, the memcpy planner and the device
    layer live in other files; they are parameters of the functions that call them.
  \<^item> \<^verbatim>\<open>PetscValidHeaderSpecific\<close>, \<^verbatim>\<open>PetscValidPointer\<close> and \<^verbatim>\<open>PetscValidIntPointer\<close> check
    that an argument is a live object of the right class; an argument of the embedding
    is a value of its type, so these checks always pass. \<^verbatim>\<open>PetscLogEventBegin\<close> and
    \<^verbatim>\<open>PetscLogEventEnd\<close> are profiling hooks that do not touch the scatter.
\<close>

subsection \<open>PetscInt\<close>

text \<open>A \<^verbatim>\<open>PetscInt\<close> has 32 bits (the default configuration). \<open>PetscInt_of v\<close> is what
  the compiled code holds after an addition or multiplication whose exact result is
  \<open>v\<close>: the two's-complement wrap into the range.\<close>

definition PETSC_MAX_INT :: int where
  "PETSC_MAX_INT = 2147483647"

definition PETSC_MIN_INT :: int where
  "PETSC_MIN_INT = - PETSC_MAX_INT - 1"

definition PetscInt_of :: "int \<Rightarrow> int" where
  "PetscInt_of v = (v + 2147483648) mod 4294967296 - 2147483648"

subsection \<open>Errors\<close>

datatype PetscErrorCode =
    PETSC_ERR_ARG_WRONGSTATE
  | PETSC_ERR_ARG_SIZ
  | PETSC_ERR_SUP
  | PETSC_ERR_ARG_CORRUPT
  | PETSC_ERR_OTHER int

text \<open>An error as \<^verbatim>\<open>SETERRQ\<close> raises it: the code, the message and the values that fill
  the message's \<^verbatim>\<open>%D\<close> places.\<close>

datatype PetscError = PetscError (errcode: PetscErrorCode) (errmsg: string) (errargs: "int list")

definition SETERRQ :: "PetscErrorCode \<Rightarrow> string \<Rightarrow> PetscError" where
  "SETERRQ c m = PetscError c m []"

definition SETERRQ2 :: "PetscErrorCode \<Rightarrow> string \<Rightarrow> int \<Rightarrow> int \<Rightarrow> PetscError" where
  "SETERRQ2 c m a b = PetscError c m [a, b]"

type_synonym 's PetscResult = "(PetscError \<times> 's) + 's"

subsection \<open>Modes\<close>

datatype InsertMode = INSERT_VALUES | ADD_VALUES

datatype ScatterMode =
  SCATTER_FORWARD | SCATTER_REVERSE | SCATTER_FORWARD_LOCAL | SCATTER_REVERSE_LOCAL

text \<open>The values of the enumeration (forward 0, reverse 1, forward-local 2,
  reverse-local 3) and the test \<^verbatim>\<open>mode & SCATTER_REVERSE\<close>.\<close>

fun ScatterMode_val :: "ScatterMode \<Rightarrow> int" where
  "ScatterMode_val SCATTER_FORWARD = 0"
| "ScatterMode_val SCATTER_REVERSE = 1"
| "ScatterMode_val SCATTER_FORWARD_LOCAL = 2"
| "ScatterMode_val SCATTER_REVERSE_LOCAL = 3"

definition mode_and_REVERSE :: "ScatterMode \<Rightarrow> bool" where
  "mode_and_REVERSE mode \<longleftrightarrow> (ScatterMode_val mode AND ScatterMode_val SCATTER_REVERSE) \<noteq> 0"

subsection \<open>Vectors\<close>

datatype PetscOffloadMask =
  PETSC_OFFLOAD_UNALLOCATED | PETSC_OFFLOAD_GPU | PETSC_OFFLOAD_CPU | PETSC_OFFLOAD_BOTH

text \<open>A vector, as far as this file looks at it: its local size and the state of its
  device copy. The entries are read and written by the backend only; integers stand for
  the scalars.\<close>

record Vec =
  local_size :: int
  valid_GPU_array :: PetscOffloadMask
  array :: "int list"

definition VecGetLocalSize :: "Vec \<Rightarrow> int" where
  "VecGetLocalSize x = local_size x"

subsection \<open>Backend formats\<close>

datatype VecScatterFormat =
    VEC_SCATTER_SEQ_GENERAL
  | VEC_SCATTER_SEQ_STRIDE
  | VEC_SCATTER_MPI_GENERAL
  | VEC_SCATTER_MPI_TOALL

text \<open>A memcpy plan: runs (destination start, source start, length).\<close>

type_synonym VecScatterMemcpyPlan = "(int \<times> int \<times> int) list"

record VecScatter_Seq_General =
  sg_n :: int
  sg_vslots :: "int list"
  sg_memcpy_plan :: "VecScatterMemcpyPlan option"

record VecScatter_Seq_Stride =
  ss_n :: int
  ss_first :: int
  ss_step :: int

record VecScatter_MPI_General =
  mg_n :: int
  mg_starts :: "int list"
  mg_indices :: "int list"
  mg_local :: VecScatter_Seq_General
  mg_bs :: int
  mg_memcpy_plan :: "VecScatterMemcpyPlan option"

text \<open>In a distributed-general backend \<^verbatim>\<open>starts\<close> has \<open>n + 1\<close> entries and
  \<^verbatim>\<open>starts[n]\<close> counts the entries of \<^verbatim>\<open>indices\<close>; the constructors of the backends (other
  files) see to that, and the functions here read \<^verbatim>\<open>starts[n]\<close> without a check.\<close>

text \<open>The structs share their first field, \<^verbatim>\<open>format\<close>, and the code casts
  \<^verbatim>\<open>todata\<close> and \<^verbatim>\<open>fromdata\<close> to the struct that field names: a tagged union.\<close>

datatype VecScatterData =
    Seq_General VecScatter_Seq_General
  | Seq_Stride VecScatter_Seq_Stride
  | MPI_General VecScatter_MPI_General
  | MPI_ToAll

fun format :: "VecScatterData \<Rightarrow> VecScatterFormat" where
  "format (Seq_General _) = VEC_SCATTER_SEQ_GENERAL"
| "format (Seq_Stride _) = VEC_SCATTER_SEQ_STRIDE"
| "format (MPI_General _) = VEC_SCATTER_MPI_GENERAL"
| "format MPI_ToAll = VEC_SCATTER_MPI_TOALL"

subsection \<open>The context\<close>

text \<open>A device mirror: the two index buffers handed to the device layer, with their
  lengths. Mirrors live in the memory of the device layer, a store of allocations; a
  released allocation is \<open>None\<close>. The field \<^verbatim>\<open>spptr\<close> of a context is a handle into that
  store, or null.\<close>

record PetscCUDAIndices =
  ci_ns :: int
  ci_sendIndices :: "int list"
  ci_nr :: int
  ci_recvIndices :: "int list"

type_synonym DeviceStore = "PetscCUDAIndices option list"

definition device_mirror :: "DeviceStore \<Rightarrow> nat \<Rightarrow> PetscCUDAIndices option" where
  "device_mirror dev h = (if h < length dev then dev ! h else None)"

record VecScatter =
  to_n :: int
  from_n :: int
  inuse :: bool
  beginandendtogether :: bool
  refct :: int
  todata :: VecScatterData
  fromdata :: VecScatterData
  spptr :: "nat option"

text \<open>The operation table \<^verbatim>\<open>ctx->ops\<close>. A backend phase receives the context and the
  two vectors and may write all three; \<^verbatim>\<open>end\<close> and \<^verbatim>\<open>destroy\<close> may be null. The destroy
  operation frees what the backend holds outside the context header (its structs, index
  arrays and plans): the backend's memory, of a type \<open>'m\<close> left to the backend, which it
  receives and returns.\<close>

type_synonym VecScatterPhase =
  "VecScatter \<Rightarrow> Vec \<Rightarrow> Vec \<Rightarrow> InsertMode \<Rightarrow> ScatterMode \<Rightarrow> (VecScatter \<times> Vec \<times> Vec) PetscResult"

record 'm VecScatterOps =
  ops_begin :: VecScatterPhase
  ops_end :: "VecScatterPhase option"
  ops_destroy :: "(VecScatter \<Rightarrow> 'm \<Rightarrow> (VecScatter \<times> 'm) PetscResult) option"

subsection \<open>VecScatterGetMerged, VecScatterBegin, VecScatterEnd\<close>

definition VecScatterGetMerged :: "VecScatter \<Rightarrow> bool" where
  "VecScatterGetMerged ctx = beginandendtogether ctx"

text \<open>Lines 95 to 105: the size check of a debug build. \<open>None\<close> when no error is
  raised.\<close>

definition VecScatterBegin_sizes :: "VecScatter \<Rightarrow> Vec \<Rightarrow> Vec \<Rightarrow> ScatterMode \<Rightarrow> PetscError option" where
  "VecScatterBegin_sizes ctx x y mode =
    (if from_n ctx \<ge> 0 \<and> to_n ctx \<ge> 0 then
       (let from_n' = VecGetLocalSize x; to_n' = VecGetLocalSize y in
        if mode_and_REVERSE mode then
          (if to_n' \<noteq> from_n ctx then
             Some (SETERRQ2 PETSC_ERR_ARG_SIZ
               ''Vector wrong size %D for scatter %D (scatter reverse and vector to != ctx from size)''
               to_n' (from_n ctx))
           else if from_n' \<noteq> to_n ctx then
             Some (SETERRQ2 PETSC_ERR_ARG_SIZ
               ''Vector wrong size %D for scatter %D (scatter reverse and vector from != ctx to size)''
               from_n' (to_n ctx))
           else None)
        else
          (if to_n' \<noteq> to_n ctx then
             Some (SETERRQ2 PETSC_ERR_ARG_SIZ
               ''Vector wrong size %D for scatter %D (scatter forward and vector to != ctx to size)''
               to_n' (to_n ctx))
           else if from_n' \<noteq> from_n ctx then
             Some (SETERRQ2 PETSC_ERR_ARG_SIZ
               ''Vector wrong size %D for scatter %D (scatter forward and vector from != ctx from size)''
               from_n' (from_n ctx))
           else None))
     else None)"

text \<open>Lines 108 to 116: mark the context, run the begin phase and, for a merged
  scatter whose backend has an end phase, the end phase.\<close>

definition VecScatterBegin_phases ::
  "'m VecScatterOps \<Rightarrow> VecScatter \<Rightarrow> Vec \<Rightarrow> Vec \<Rightarrow> InsertMode \<Rightarrow> ScatterMode
    \<Rightarrow> (VecScatter \<times> Vec \<times> Vec) PetscResult" where
  "VecScatterBegin_phases ops ctx x y addv mode =
    (case ops_begin ops (ctx\<lparr>inuse := True\<rparr>) x y addv mode of
       Inl err \<Rightarrow> Inl err
     | Inr (ctx1, x1, y1) \<Rightarrow>
         (case (beginandendtogether ctx1, ops_end ops) of
            (True, Some e) \<Rightarrow> e (ctx1\<lparr>inuse := False\<rparr>) x1 y1 addv mode
          | _ \<Rightarrow> Inr (ctx1, x1, y1)))"

text \<open>\<^verbatim>\<open>VecScatterBegin\<close>. The first argument says whether \<^verbatim>\<open>PETSC_USE_DEBUG\<close> is
  defined: the size check is compiled in a debug build only.\<close>

definition VecScatterBegin ::
  "bool \<Rightarrow> 'm VecScatterOps \<Rightarrow> VecScatter \<Rightarrow> Vec \<Rightarrow> Vec \<Rightarrow> InsertMode \<Rightarrow> ScatterMode
    \<Rightarrow> (VecScatter \<times> Vec \<times> Vec) PetscResult" where
  "VecScatterBegin PETSC_USE_DEBUG ops ctx x y addv mode =
    (if inuse ctx then
       Inl (SETERRQ PETSC_ERR_ARG_WRONGSTATE '' Scatter ctx already in use'', (ctx, x, y))
     else
       (case (if PETSC_USE_DEBUG then VecScatterBegin_sizes ctx x y mode else None) of
          Some err \<Rightarrow> Inl (err, (ctx, x, y))
        | None \<Rightarrow> VecScatterBegin_phases ops ctx x y addv mode))"

definition VecScatterEnd ::
  "'m VecScatterOps \<Rightarrow> VecScatter \<Rightarrow> Vec \<Rightarrow> Vec \<Rightarrow> InsertMode \<Rightarrow> ScatterMode
    \<Rightarrow> (VecScatter \<times> Vec \<times> Vec) PetscResult" where
  "VecScatterEnd ops ctx x y addv mode =
    (let ctx1 = ctx\<lparr>inuse := False\<rparr> in
     case ops_end ops of
       None \<Rightarrow> Inr (ctx1, x, y)
     | Some e \<Rightarrow>
         if \<not> beginandendtogether ctx1 then e ctx1 x y addv mode
         else Inr (ctx1, x, y))"

subsection \<open>VecScatterDestroy\<close>

text \<open>A context is shared by reference count and owns memory outside its header, so
  \<^verbatim>\<open>VecScatterDestroy\<close> works on a world and on the caller's handle \<^verbatim>\<open>*ctx\<close> (\<open>None\<close> is the
  null handle). The world holds the context headers by address, the device layer's
  store of mirrors, and the backend's memory.\<close>

record 'm VecScatterWorld =
  w_objects :: "nat \<Rightarrow> VecScatter option"
  w_device :: DeviceStore
  w_backend :: 'm

text \<open>Modelled from the spec: \<^verbatim>\<open>VecScatterCUDAIndicesDestroy\<close> is not in this file; given
  the address of \<^verbatim>\<open>spptr\<close>, it releases the device mirror behind the handle, if there is
  one, and nulls the handle.\<close>

definition VecScatterCUDAIndicesDestroy :: "nat option \<Rightarrow> DeviceStore \<Rightarrow> nat option \<times> DeviceStore" where
  "VecScatterCUDAIndicesDestroy sp dev =
    (case sp of None \<Rightarrow> (None, dev) | Some h \<Rightarrow> (None, dev[h := None]))"

text \<open>\<^verbatim>\<open>VecScatterDestroy\<close>. The first argument says whether \<^verbatim>\<open>PETSC_HAVE_CUDA\<close> is defined.
  Here the handle can point at an object that is no longer in the world;
  \<^verbatim>\<open>PetscValidHeaderSpecific\<close>, a macro of another file, is taken to raise the
  corrupt-argument error for it. \<^verbatim>\<open>PetscObjectSAWsViewOff\<close> does nothing unless the object
  was published, which this file never does. \<^verbatim>\<open>PetscHeaderDestroy\<close> frees the header and
  nulls the handle.\<close>

definition VecScatterDestroy ::
  "bool \<Rightarrow> 'm VecScatterOps \<Rightarrow> 'm VecScatterWorld \<Rightarrow> nat option
    \<Rightarrow> ('m VecScatterWorld \<times> nat option) PetscResult" where
  "VecScatterDestroy PETSC_HAVE_CUDA ops w ctx =
    (case ctx of
       None \<Rightarrow> Inr (w, None)
     | Some p \<Rightarrow>
        (case w_objects w p of
           None \<Rightarrow> Inl (SETERRQ PETSC_ERR_ARG_CORRUPT ''Invalid Pointer to Object'', (w, ctx))
         | Some obj \<Rightarrow>
            if inuse obj \<and> refct obj = 1 then
              Inl (SETERRQ PETSC_ERR_ARG_WRONGSTATE ''Scatter context is in use'', (w, ctx))
            else
              (let obj1 = obj\<lparr>refct := refct obj - 1\<rparr> in
               if refct obj1 > 0 then
                 Inr (w\<lparr>w_objects := (w_objects w)(p \<mapsto> obj1)\<rparr>, None)
               else
                 (case (case ops_destroy ops of
                          Some d \<Rightarrow> d obj1 (w_backend w)
                        | None \<Rightarrow> Inr (obj1, w_backend w)) of
                    Inl (err, (obj2, m2)) \<Rightarrow>
                      Inl (err, (w\<lparr>w_objects := (w_objects w)(p \<mapsto> obj2), w_backend := m2\<rparr>,
                                 ctx))
                  | Inr (obj2, m2) \<Rightarrow>
                      (let (sp, dev) =
                             (if PETSC_HAVE_CUDA
                              then VecScatterCUDAIndicesDestroy (spptr obj2) (w_device w)
                              else (spptr obj2, w_device w))
                       in Inr (w\<lparr>w_objects := (w_objects w)(p := None), w_device := dev,
                                 w_backend := m2\<rparr>, None))))))"

subsection \<open>VecScatterRemap\<close>

text \<open>The memcpy planner is in another file. Its entry points take the addresses the
  code passes them and may fail; \<^verbatim>\<open>VecScatterMemcpyPlanCreate_Index\<close> writes the plan it is
  given, the others receive whole backend structs.\<close>

record VecScatterPlanner =
  MemcpyPlanCreate_Index ::
    "int \<Rightarrow> int list \<Rightarrow> int list \<Rightarrow> int \<Rightarrow> PetscError + VecScatterMemcpyPlan"
  MemcpyPlanCreate_SGToSG ::
    "int \<Rightarrow> VecScatter_Seq_General \<Rightarrow> VecScatter_Seq_General
      \<Rightarrow> (VecScatter_Seq_General \<times> VecScatter_Seq_General) PetscResult"
  MemcpyPlanDestroy_PtoP ::
    "VecScatter_MPI_General \<Rightarrow> VecScatterData
      \<Rightarrow> (VecScatter_MPI_General \<times> VecScatterData) PetscResult"
  MemcpyPlanCreate_PtoP ::
    "VecScatter_MPI_General \<Rightarrow> VecScatterData
      \<Rightarrow> (VecScatter_MPI_General \<times> VecScatterData) PetscResult"

text \<open>Modelled from the spec: \<^verbatim>\<open>VecScatterMemcpyPlanDestroy\<close> is not in this file; it
  discards the plan.\<close>

definition VecScatterMemcpyPlanDestroy ::
  "VecScatterMemcpyPlan option \<Rightarrow> VecScatterMemcpyPlan option" where
  "VecScatterMemcpyPlanDestroy plan = None"

text \<open>The loop \<^verbatim>\<open>for (i=0; i<N; i++) a[i] = tomap[a[i]]\<close>. The map is a C array given by
  its address only, so it is a function of the index. The array \<open>a\<close> is a list; a
  position at or past its end is outside the array in C, and the list update leaves the
  list as it is there.\<close>

function remap_loop :: "(int \<Rightarrow> int) \<Rightarrow> int \<Rightarrow> int \<Rightarrow> int list \<Rightarrow> int list" where
  "remap_loop tomap i N a =
    (if i < N then remap_loop tomap (i + 1) N (a[nat i := tomap (a ! nat i)]) else a)"
  by pat_completeness auto
termination
  by (relation "measure (\<lambda>(tomap, i, N, a). nat (N - i))") auto

declare remap_loop.simps [simp del]

text \<open>The loop \<^verbatim>\<open>for (i=0; i<n; i++) if (tomap[i] != i) SETERRQ(...)\<close>: \<open>True\<close> when it
  runs to its end without raising.\<close>

function remap_identity :: "(int \<Rightarrow> int) \<Rightarrow> int \<Rightarrow> int \<Rightarrow> bool" where
  "remap_identity tomap i N =
    (if i < N then (if tomap i \<noteq> i then False else remap_identity tomap (i + 1) N) else True)"
  by pat_completeness auto
termination
  by (relation "measure (\<lambda>(tomap, i, N). nat (N - i))") auto

declare remap_identity.simps [simp del]

text \<open>Lines 336 to 349: the from side is a general sequential list.\<close>

definition VecScatterRemap_sgfrom ::
  "VecScatterPlanner \<Rightarrow> VecScatter \<Rightarrow> VecScatter_Seq_General \<Rightarrow> (int \<Rightarrow> int)
    \<Rightarrow> VecScatter PetscResult" where
  "VecScatterRemap_sgfrom pl scat sgfrom tomap =
    (let sgfrom1 = sgfrom\<lparr>sg_vslots := remap_loop tomap 0 (sg_n sgfrom) (sg_vslots sgfrom)\<rparr>;
         scat1 = scat\<lparr>fromdata := Seq_General sgfrom1\<rparr>
     in
     case todata scat of
       Seq_Stride ssto \<Rightarrow>
         if ss_step ssto = 1 then
           (let tmp = [0, sg_n sgfrom1];
                sgfrom2 = sgfrom1\<lparr>sg_memcpy_plan :=
                            VecScatterMemcpyPlanDestroy (sg_memcpy_plan sgfrom1)\<rparr>
            in
            case MemcpyPlanCreate_Index pl 1 tmp (sg_vslots sgfrom2) 1 of
              Inl err \<Rightarrow> Inl (err, scat\<lparr>fromdata := Seq_General sgfrom2\<rparr>)
            | Inr plan \<Rightarrow>
                Inr (scat\<lparr>fromdata := Seq_General (sgfrom2\<lparr>sg_memcpy_plan := Some plan\<rparr>)\<rparr>))
         else Inr scat1
     | Seq_General sgto \<Rightarrow>
         (let sgto1 = sgto\<lparr>sg_memcpy_plan :=
                        VecScatterMemcpyPlanDestroy (sg_memcpy_plan sgto)\<rparr>;
              sgfrom2 = sgfrom1\<lparr>sg_memcpy_plan :=
                          VecScatterMemcpyPlanDestroy (sg_memcpy_plan sgfrom1)\<rparr>
          in
          case MemcpyPlanCreate_SGToSG pl 1 sgto1 sgfrom2 of
            Inl (err, (t, f)) \<Rightarrow>
              Inl (err, scat\<lparr>todata := Seq_General t, fromdata := Seq_General f\<rparr>)
          | Inr (t, f) \<Rightarrow> Inr (scat\<lparr>todata := Seq_General t, fromdata := Seq_General f\<rparr>))
     | _ \<Rightarrow> Inr scat1)"

text \<open>Lines 321 to 360: the branch \<^verbatim>\<open>if (tomap)\<close>. The first two tests read the format
  of \<^verbatim>\<open>todata\<close>, the next two the format of \<^verbatim>\<open>fromdata\<close>.\<close>

definition VecScatterRemap_tomap ::
  "VecScatterPlanner \<Rightarrow> VecScatter \<Rightarrow> (int \<Rightarrow> int) \<Rightarrow> VecScatter PetscResult" where
  "VecScatterRemap_tomap pl scat tomap =
    (case todata scat of
       MPI_ToAll \<Rightarrow> Inl (SETERRQ PETSC_ERR_ARG_SIZ ''Not for to all scatter'', scat)
     | MPI_General to \<Rightarrow>
         (let to1 = to\<lparr>mg_indices :=
                      remap_loop tomap 0 (mg_starts to ! nat (mg_n to)) (mg_indices to)\<rparr>;
              to2 = to1\<lparr>mg_local := (mg_local to1)\<lparr>sg_vslots :=
                      remap_loop tomap 0 (sg_n (mg_local to1)) (sg_vslots (mg_local to1))\<rparr>\<rparr>
          in
          case MemcpyPlanDestroy_PtoP pl to2 (fromdata scat) of
            Inl (err, (t, f)) \<Rightarrow> Inl (err, scat\<lparr>todata := MPI_General t, fromdata := f\<rparr>)
          | Inr (t, f) \<Rightarrow>
              (case MemcpyPlanCreate_PtoP pl t f of
                 Inl (err, (t', f')) \<Rightarrow>
                   Inl (err, scat\<lparr>todata := MPI_General t', fromdata := f'\<rparr>)
               | Inr (t', f') \<Rightarrow> Inr (scat\<lparr>todata := MPI_General t', fromdata := f'\<rparr>)))
     | _ \<Rightarrow>
         (case fromdata scat of
            Seq_General sgfrom \<Rightarrow> VecScatterRemap_sgfrom pl scat sgfrom tomap
          | Seq_Stride ssto \<Rightarrow>
              if ss_step ssto = 1 \<and> ss_first ssto = 0 then
                (if remap_identity tomap 0 (ss_n ssto) then Inr scat
                 else Inl (SETERRQ PETSC_ERR_ARG_SIZ ''Unable to remap such scatters'', scat))
              else Inl (SETERRQ PETSC_ERR_ARG_SIZ ''Unable to remap such scatters'', scat)
          | _ \<Rightarrow> Inl (SETERRQ PETSC_ERR_ARG_SIZ ''Unable to remap such scatters'', scat)))"

text \<open>\<^verbatim>\<open>VecScatterRemap\<close>; \<open>None\<close> is a null map.\<close>

definition VecScatterRemap ::
  "VecScatterPlanner \<Rightarrow> VecScatter \<Rightarrow> (int \<Rightarrow> int) option \<Rightarrow> (int \<Rightarrow> int) option
    \<Rightarrow> VecScatter PetscResult" where
  "VecScatterRemap pl scat tomap frommap =
    (case (case tomap of None \<Rightarrow> Inr scat | Some tm \<Rightarrow> VecScatterRemap_tomap pl scat tm) of
       Inl err \<Rightarrow> Inl err
     | Inr scat1 \<Rightarrow>
         (case frommap of
            Some fm \<Rightarrow>
              Inl (SETERRQ PETSC_ERR_SUP ''Unable to remap the FROM in scatters yet'', scat1)
          | None \<Rightarrow> Inr (scat1\<lparr>from_n := - 1, to_n := - 1\<rparr>)))"

subsection \<open>VecScatterInitializeForGPU\<close>

definition VecScatterIsSequential_Private :: "VecScatterData \<Rightarrow> bool" where
  "VecScatterIsSequential_Private scatter =
    (let scatterType = format scatter in
     if scatterType = VEC_SCATTER_SEQ_GENERAL \<or> scatterType = VEC_SCATTER_SEQ_STRIDE then True
     else False)"

text \<open>Modelled from the spec: \<^verbatim>\<open>PetscSortRemoveDupsInt\<close> is not in this file; it
  deduplicates the first \<open>n\<close> entries of an index array (in increasing order, as its
  name says) and returns how many are left.\<close>

definition PetscSortRemoveDupsInt :: "int \<Rightarrow> int list \<Rightarrow> int \<times> int list" where
  "PetscSortRemoveDupsInt n a =
    (let s = sort (remdups (take (nat n) a)) in (int (length s), s))"

text \<open>The two nested loops
  \<^verbatim>\<open>for (i=0; i<ns; i++) for (k=0; k<bs; k++) s[i*bs+k] = t[i]+k\<close>. The product, the two
  sums and the buffer size \<^verbatim>\<open>bs*ns\<close> below are \<^verbatim>\<open>PetscInt\<close> arithmetic. A position outside
  the buffer is outside the array in C; the list update leaves the list as it is there.\<close>

function expand_inner :: "int \<Rightarrow> int list \<Rightarrow> int \<Rightarrow> int \<Rightarrow> int list \<Rightarrow> int list" where
  "expand_inner bs t i k s =
    (if k < bs then
       expand_inner bs t i (k + 1)
         (s[nat (PetscInt_of (PetscInt_of (i * bs) + k)) := PetscInt_of (t ! nat i + k)])
     else s)"
  by pat_completeness auto
termination
  by (relation "measure (\<lambda>(bs, t, i, k, s). nat (bs - k))") auto

declare expand_inner.simps [simp del]

function expand_outer :: "int \<Rightarrow> int list \<Rightarrow> int \<Rightarrow> int \<Rightarrow> int list \<Rightarrow> int list" where
  "expand_outer bs t ns i s =
    (if i < ns then expand_outer bs t ns (i + 1) (expand_inner bs t i 0 s) else s)"
  by pat_completeness auto
termination
  by (relation "measure (\<lambda>(bs, t, ns, i, s). nat (ns - i))") auto

declare expand_outer.simps [simp del]

text \<open>\<^verbatim>\<open>PetscMalloc1(bs*ns,&s)\<close> followed by the loops: every entry of the fresh buffer is
  written, so its first content (here 0) does not show.\<close>

definition expand_indices :: "int \<Rightarrow> int \<Rightarrow> int list \<Rightarrow> int list" where
  "expand_indices bs ns t =
    expand_outer bs t ns 0 (replicate (nat (PetscInt_of (bs * ns))) 0)"

text \<open>Modelled from the spec: \<^verbatim>\<open>VecScatterCUDAIndicesCreate_PtoP\<close> is not in this file;
  it takes the two buffers and their lengths, makes the mirror in the device layer's
  store and gives its handle (a fresh one: the next place of the store).\<close>

definition VecScatterCUDAIndicesCreate_PtoP ::
  "int \<Rightarrow> int list \<Rightarrow> int \<Rightarrow> int list \<Rightarrow> DeviceStore \<Rightarrow> nat \<times> DeviceStore" where
  "VecScatterCUDAIndicesCreate_PtoP ns sendIndices nr recvIndices dev =
    (length dev,
     dev @ [Some \<lparr>ci_ns = ns, ci_sendIndices = sendIndices,
                  ci_nr = nr, ci_recvIndices = recvIndices\<rparr>])"

text \<open>Lines 459 to 499, with \<^verbatim>\<open>to\<close> and \<^verbatim>\<open>from\<close> already chosen by the mode.\<close>

definition VecScatterInitializeForGPU_PtoP ::
  "VecScatter \<Rightarrow> DeviceStore \<Rightarrow> Vec \<Rightarrow> VecScatter_MPI_General \<Rightarrow> VecScatter_MPI_General
    \<Rightarrow> VecScatter \<times> DeviceStore" where
  "VecScatterInitializeForGPU_PtoP inctx dev x to from =
    (let bs = mg_bs to;
         nrecvs = mg_n from;
         nsends = mg_n to;
         indices = mg_indices to;
         sstartsSends = mg_starts to;
         sstartsRecvs = mg_starts from
     in
     if valid_GPU_array x \<noteq> PETSC_OFFLOAD_UNALLOCATED \<and> (nsends > 0 \<or> nrecvs > 0) then
       (if spptr inctx = None then
          (let ns0 = sstartsSends ! nat nsends;
               nr0 = sstartsRecvs ! nat nrecvs;
               (ns, tindicesSends) = PetscSortRemoveDupsInt ns0 (take (nat ns0) indices);
               (nr, tindicesRecvs) = PetscSortRemoveDupsInt nr0 (take (nat nr0) (mg_indices from));
               sindicesSends = expand_indices bs ns tindicesSends;
               sindicesRecvs = expand_indices (mg_bs from) nr tindicesRecvs;
               (h, dev1) = VecScatterCUDAIndicesCreate_PtoP
                             (PetscInt_of (ns * bs)) sindicesSends
                             (PetscInt_of (nr * mg_bs from)) sindicesRecvs dev
           in (inctx\<lparr>spptr := Some h\<rparr>, dev1))
        else (inctx, dev))
     else (inctx, dev))"

text \<open>\<^verbatim>\<open>VecScatterInitializeForGPU\<close> (compiled with \<^verbatim>\<open>PETSC_HAVE_CUDA\<close> only), on the context
  and the device layer's store. After the test for sequential formats the code casts
  both sides to \<^verbatim>\<open>VecScatter_MPI_General\<close>; for a to-all backend that struct is not there
  and C gives the reads no meaning: \<open>None\<close>.\<close>

definition VecScatterInitializeForGPU ::
  "VecScatter \<Rightarrow> DeviceStore \<Rightarrow> Vec \<Rightarrow> ScatterMode
    \<Rightarrow> (VecScatter \<times> DeviceStore) PetscResult option" where
  "VecScatterInitializeForGPU inctx dev x mode =
    (let isSeq1 = VecScatterIsSequential_Private (fromdata inctx);
         isSeq2 = VecScatterIsSequential_Private (todata inctx)
     in
     if isSeq1 \<or> isSeq2 then Some (Inr (inctx, dev))
     else
       (case (if mode_and_REVERSE mode then (fromdata inctx, todata inctx)
              else (todata inctx, fromdata inctx)) of
          (MPI_General to, MPI_General from) \<Rightarrow>
            Some (Inr (VecScatterInitializeForGPU_PtoP inctx dev x to from))
        | _ \<Rightarrow> None))"

definition VecScatterFinalizeForGPU :: "VecScatter \<Rightarrow> VecScatter PetscResult" where
  "VecScatterFinalizeForGPU inctx = Inr inctx"

subsection \<open>Frame condition on the backend\<close>

text \<open>The in-use flag and the merge flag belong to the interface layer. A backend
  phase keeps them when every successful run returns the context with both flags as it
  received them.\<close>

definition phase_keeps_flags :: "VecScatterPhase \<Rightarrow> bool" where
  "phase_keeps_flags f \<longleftrightarrow>
    (\<forall>ctx x y addv mode ctx' x' y'.
       f ctx x y addv mode = Inr (ctx', x', y') \<longrightarrow>
         inuse ctx' = inuse ctx \<and> beginandendtogether ctx' = beginandendtogether ctx)"

definition ops_keep_flags :: "'m VecScatterOps \<Rightarrow> bool" where
  "ops_keep_flags ops \<longleftrightarrow>
    phase_keeps_flags (ops_begin ops) \<and>
    (case ops_end ops of None \<Rightarrow> True | Some e \<Rightarrow> phase_keeps_flags e)"

subsection \<open>Concrete contexts and backends for the examples\<close>

text \<open>A backend whose phases only log their run at the end of \<open>y\<close>: 0 for the begin
  phase, 1 for the end phase. It has no destroy operation and holds no memory outside
  the context.\<close>

definition log_begin :: VecScatterPhase where
  "log_begin ctx x y addv mode = Inr (ctx, x, y\<lparr>array := array y @ [0]\<rparr>)"

definition log_end :: VecScatterPhase where
  "log_end ctx x y addv mode = Inr (ctx, x, y\<lparr>array := array y @ [1]\<rparr>)"

definition log_ops :: "unit VecScatterOps" where
  "log_ops = \<lparr>ops_begin = log_begin, ops_end = Some log_end, ops_destroy = None\<rparr>"

definition vec_of_size :: "int \<Rightarrow> Vec" where
  "vec_of_size k = \<lparr>local_size = k, valid_GPU_array = PETSC_OFFLOAD_GPU, array = []\<rparr>"

definition sg_of :: "int list \<Rightarrow> VecScatter_Seq_General" where
  "sg_of vs = \<lparr>sg_n = int (length vs), sg_vslots = vs, sg_memcpy_plan = None\<rparr>"

definition stride_of :: "int \<Rightarrow> int \<Rightarrow> int \<Rightarrow> VecScatter_Seq_Stride" where
  "stride_of k first step = \<lparr>ss_n = k, ss_first = first, ss_step = step\<rparr>"

text \<open>A context over two backends: declared sizes 3 and 3, not in use, not merged, one
  owner, no device mirror.\<close>

definition ctx_of :: "VecScatterData \<Rightarrow> VecScatterData \<Rightarrow> VecScatter" where
  "ctx_of to from =
    \<lparr>to_n = 3, from_n = 3, inuse = False, beginandendtogether = False, refct = 1,
     todata = to, fromdata = from, spptr = None\<rparr>"

definition seq_ctx :: VecScatter where
  "seq_ctx = ctx_of (Seq_General (sg_of [3, 1, 4])) (Seq_General (sg_of [0, 1, 2]))"

text \<open>A planner that finds no runs: every plan it builds is empty.\<close>

definition empty_planner :: VecScatterPlanner where
  "empty_planner =
    \<lparr>MemcpyPlanCreate_Index = (\<lambda>n tmp vslots bs. Inr []),
     MemcpyPlanCreate_SGToSG = (\<lambda>bs t f.
        Inr (t\<lparr>sg_memcpy_plan := Some []\<rparr>, f\<lparr>sg_memcpy_plan := Some []\<rparr>)),
     MemcpyPlanDestroy_PtoP = (\<lambda>t f. Inr (t\<lparr>mg_memcpy_plan := None\<rparr>, f)),
     MemcpyPlanCreate_PtoP = (\<lambda>t f. Inr (t\<lparr>mg_memcpy_plan := Some []\<rparr>, f))\<rparr>"

text \<open>What the remap loop computes, said without the loop: the first \<open>N\<close> entries of
  \<open>a\<close> sent through \<open>f\<close>, the others kept.\<close>

definition map_first :: "(int \<Rightarrow> int) \<Rightarrow> int \<Rightarrow> int list \<Rightarrow> int list" where
  "map_first f N a = map f (take (nat N) a) @ drop (nat N) a"

text \<open>Two index maps, as C arrays read by index: the identity and a shift by one.\<close>

definition id_map :: "int \<Rightarrow> int" where
  "id_map i = i"

definition shift_map :: "int \<Rightarrow> int" where
  "shift_map i = i + 1"

text \<open>The context \<open>seq_ctx\<close> after a remap of its from side by \<open>shift_map\<close> with the empty
  planner.\<close>

definition remapped_ctx :: VecScatter where
  "remapped_ctx = seq_ctx\<lparr>to_n := - 1, from_n := - 1,
      todata := Seq_General ((sg_of [3, 1, 4])\<lparr>sg_memcpy_plan := Some []\<rparr>),
      fromdata := Seq_General ((sg_of [1, 2, 3])\<lparr>sg_memcpy_plan := Some []\<rparr>)\<rparr>"

text \<open>A context whose to side is the stride 2, 7, 12 and whose from side is a general
  list; contexts whose from side is a stride of three entries; a to-all context.\<close>

definition stride_to_ctx :: VecScatter where
  "stride_to_ctx = ctx_of (Seq_Stride (stride_of 3 2 5)) (Seq_General (sg_of [0, 1, 2]))"

definition stride_from_ctx :: "int \<Rightarrow> int \<Rightarrow> VecScatter" where
  "stride_from_ctx first step =
    ctx_of (Seq_General (sg_of [3, 1, 4])) (Seq_Stride (stride_of 3 first step))"

definition toall_ctx :: VecScatter where
  "toall_ctx = ctx_of MPI_ToAll MPI_ToAll"

text \<open>The scenario of the spec for the device indices: two peers with starts 0, 2, 5
  on the send side (peer 0 has the entries 0 and 1 of the index buffer, peer 1 the
  entries 2 to 4), two local slots, blocks of two components.\<close>

definition mpi_to :: VecScatter_MPI_General where
  "mpi_to = \<lparr>mg_n = 2, mg_starts = [0, 2, 5], mg_indices = [4, 7, 4, 9, 1],
             mg_local = sg_of [20, 21], mg_bs = 2, mg_memcpy_plan = None\<rparr>"

definition mpi_from :: VecScatter_MPI_General where
  "mpi_from = \<lparr>mg_n = 1, mg_starts = [0, 3], mg_indices = [6, 5, 6],
               mg_local = sg_of [0, 1], mg_bs = 2, mg_memcpy_plan = None\<rparr>"

definition mpi_ctx :: VecScatter where
  "mpi_ctx = ctx_of (MPI_General mpi_to) (MPI_General mpi_from)"

text \<open>For the examples of Destroy: a device mirror, a backend memory that lists the
  blocks the backend holds, and a backend destroy operation that frees them all.\<close>

definition mirror0 :: PetscCUDAIndices where
  "mirror0 = \<lparr>ci_ns = 2, ci_sendIndices = [1, 2], ci_nr = 0, ci_recvIndices = []\<rparr>"

definition free_blocks :: "VecScatter \<Rightarrow> nat list \<Rightarrow> (VecScatter \<times> nat list) PetscResult" where
  "free_blocks ctx blocks = Inr (ctx, [])"

definition free_ops :: "(nat list) VecScatterOps" where
  "free_ops = \<lparr>ops_begin = log_begin, ops_end = Some log_end, ops_destroy = Some free_blocks\<rparr>"

text \<open>A world with one context at address 0 whose mirror is the allocation 0 of the
  device, and two blocks of backend memory.\<close>

definition world_of :: "VecScatter \<Rightarrow> (nat list) VecScatterWorld" where
  "world_of ctx =
    \<lparr>w_objects = Map.empty(0 \<mapsto> ctx), w_device = [Some mirror0], w_backend = [7, 8]\<rparr>"

section \<open>Properties\<close>

subsection \<open>Begin and End: auxiliary facts\<close>

lemma phase_keeps_flagsD:
  assumes "phase_keeps_flags f" and "f ctx x y addv mode = Inr (ctx', x', y')"
  shows "inuse ctx' = inuse ctx" and "beginandendtogether ctx' = beginandendtogether ctx"
  using assms unfolding phase_keeps_flags_def by blast+

lemma VecScatterBegin_Inr_iff:
  "VecScatterBegin dbg ops ctx x y addv mode = Inr r \<longleftrightarrow>
    \<not> inuse ctx \<and> (dbg \<longrightarrow> VecScatterBegin_sizes ctx x y mode = None)
    \<and> VecScatterBegin_phases ops ctx x y addv mode = Inr r"
  by (auto simp: VecScatterBegin_def split: option.splits)

lemma VecScatterBegin_phases_Inr:
  assumes "VecScatterBegin_phases ops ctx x y addv mode = Inr r"
  shows "\<exists>ctx1 x1 y1.
    ops_begin ops (ctx\<lparr>inuse := True\<rparr>) x y addv mode = Inr (ctx1, x1, y1) \<and>
    (if beginandendtogether ctx1 then
       (case ops_end ops of Some e \<Rightarrow> e (ctx1\<lparr>inuse := False\<rparr>) x1 y1 addv mode = Inr r
        | None \<Rightarrow> r = (ctx1, x1, y1))
     else r = (ctx1, x1, y1))"
  using assms unfolding VecScatterBegin_phases_def
  by (auto split: sum.splits prod.splits bool.splits option.splits)

lemma VecScatterEnd_merged:
  assumes "beginandendtogether ctx"
  shows "VecScatterEnd ops ctx x y addv mode = Inr (ctx\<lparr>inuse := False\<rparr>, x, y)"
  using assms by (simp add: VecScatterEnd_def Let_def split: option.splits)

lemma VecScatterEnd_Inr_inuse:
  assumes "ops_keep_flags ops" and "VecScatterEnd ops ctx x y addv mode = Inr (ctx', x', y')"
  shows "\<not> inuse ctx'"
proof (cases "ops_end ops")
  case None
  with assms(2) show ?thesis by (auto simp: VecScatterEnd_def Let_def)
next
  case (Some e)
  show ?thesis
  proof (cases "beginandendtogether ctx")
    case True
    with assms(2) Some show ?thesis by (auto simp: VecScatterEnd_def Let_def)
  next
    case False
    with assms(2) Some have run: "e (ctx\<lparr>inuse := False\<rparr>) x y addv mode = Inr (ctx', x', y')"
      by (simp add: VecScatterEnd_def Let_def)
    from assms(1) Some have "phase_keeps_flags e" by (simp add: ops_keep_flags_def)
    from phase_keeps_flagsD(1)[OF this run] show ?thesis by simp
  qed
qed

lemma log_ops_keep_flags: "ops_keep_flags log_ops"
  by (simp add: ops_keep_flags_def phase_keeps_flags_def log_ops_def log_begin_def log_end_def)

lemmas ex_defs = VecScatterBegin_def VecScatterBegin_sizes_def VecScatterBegin_phases_def
  VecScatterEnd_def VecGetLocalSize_def mode_and_REVERSE_def log_ops_def log_begin_def
  log_end_def seq_ctx_def ctx_of_def vec_of_size_def Let_def

subsection \<open>The claims on Begin and End\<close>

text \<open>
  C1. A call of \<^verbatim>\<open>VecScatterBegin\<close> on a context whose in-use flag is set fails with the
  wrong-state error, whatever the build, the backend, the vectors and the mode are, and
  it leaves the context (its in-use flag still set) and both vectors exactly as they
  were.
\<close>

theorem VecScatterBegin_inuse_wrongstate:
  assumes "inuse ctx"
  shows "VecScatterBegin dbg ops ctx x y addv mode =
           Inl (SETERRQ PETSC_ERR_ARG_WRONGSTATE '' Scatter ctx already in use'', (ctx, x, y))
         \<and> errcode (SETERRQ PETSC_ERR_ARG_WRONGSTATE '' Scatter ctx already in use'')
             = PETSC_ERR_ARG_WRONGSTATE"
  using assms by (simp add: VecScatterBegin_def SETERRQ_def)

text \<open>The scenario of the spec: a first \<^verbatim>\<open>VecScatterBegin\<close> succeeds and leaves the
  context in use; the second one fails and changes nothing.\<close>

theorem VecScatterBegin_inuse_wrongstate_witness:
  "VecScatterBegin True log_ops seq_ctx (vec_of_size 3) (vec_of_size 3) INSERT_VALUES SCATTER_FORWARD
     = Inr (seq_ctx\<lparr>inuse := True\<rparr>, vec_of_size 3, (vec_of_size 3)\<lparr>array := [0]\<rparr>)
   \<and> inuse (seq_ctx\<lparr>inuse := True\<rparr>)
   \<and> VecScatterBegin True log_ops (seq_ctx\<lparr>inuse := True\<rparr>) (vec_of_size 3)
        ((vec_of_size 3)\<lparr>array := [0]\<rparr>) INSERT_VALUES SCATTER_FORWARD
     = Inl (SETERRQ PETSC_ERR_ARG_WRONGSTATE '' Scatter ctx already in use'',
            (seq_ctx\<lparr>inuse := True\<rparr>, vec_of_size 3, (vec_of_size 3)\<lparr>array := [0]\<rparr>))"
proof -
  have first: "VecScatterBegin True log_ops seq_ctx (vec_of_size 3) (vec_of_size 3)
       INSERT_VALUES SCATTER_FORWARD
     = Inr (seq_ctx\<lparr>inuse := True\<rparr>, vec_of_size 3, (vec_of_size 3)\<lparr>array := [0]\<rparr>)"
    by (simp add: VecScatterBegin_def VecScatterBegin_sizes_def VecScatterBegin_phases_def
        VecGetLocalSize_def mode_and_REVERSE_def log_ops_def log_begin_def seq_ctx_def ctx_of_def
        vec_of_size_def)
  have used: "inuse (seq_ctx\<lparr>inuse := True\<rparr>)" by simp
  from VecScatterBegin_inuse_wrongstate[OF used, of True log_ops "vec_of_size 3"
      "(vec_of_size 3)\<lparr>array := [0]\<rparr>" INSERT_VALUES SCATTER_FORWARD] first used
  show ?thesis by simp
qed

text \<open>
  C2. Let \<^verbatim>\<open>VecScatterBegin\<close> succeed on a backend that keeps the two interface flags.
  If the merge flag is set and the backend has an end phase, the result of Begin is the
  result of the end phase, run inside Begin on what the begin phase returned with the
  in-use flag cleared; the context is not in use afterwards, and a later
  \<^verbatim>\<open>VecScatterEnd\<close>, on any vectors, returns at once with context and vectors untouched (the
  end phase is not run again). If the merge flag is not set, Begin returns what the begin
  phase returned, the context is in use, and every \<^verbatim>\<open>VecScatterEnd\<close> that returns leaves it
  not in use.
\<close>

theorem VecScatterBegin_merged:
  assumes keep: "ops_keep_flags ops"
    and ok: "VecScatterBegin dbg ops ctx x y addv mode = Inr (ctx', x', y')"
  shows "(beginandendtogether ctx \<and> ops_end ops = Some e \<longrightarrow>
            (\<exists>ctx1 x1 y1. ops_begin ops (ctx\<lparr>inuse := True\<rparr>) x y addv mode = Inr (ctx1, x1, y1)
                \<and> e (ctx1\<lparr>inuse := False\<rparr>) x1 y1 addv mode = Inr (ctx', x', y'))
            \<and> \<not> inuse ctx'
            \<and> (\<forall>x2 y2 addv2 mode2. VecScatterEnd ops ctx' x2 y2 addv2 mode2 = Inr (ctx', x2, y2)))
       \<and> (\<not> beginandendtogether ctx \<longrightarrow>
            ops_begin ops (ctx\<lparr>inuse := True\<rparr>) x y addv mode = Inr (ctx', x', y')
            \<and> inuse ctx'
            \<and> (\<forall>x2 y2 addv2 mode2 ctx2 x3 y3.
                  VecScatterEnd ops ctx' x2 y2 addv2 mode2 = Inr (ctx2, x3, y3)
                  \<longrightarrow> \<not> inuse ctx2))"
proof -
  from ok have ph: "VecScatterBegin_phases ops ctx x y addv mode = Inr (ctx', x', y')"
    by (simp add: VecScatterBegin_Inr_iff)
  from keep have kb: "phase_keeps_flags (ops_begin ops)"
    by (simp add: ops_keep_flags_def)
  from VecScatterBegin_phases_Inr[OF ph] obtain ctx1 x1 y1 where
    b: "ops_begin ops (ctx\<lparr>inuse := True\<rparr>) x y addv mode = Inr (ctx1, x1, y1)"
    and rest: "if beginandendtogether ctx1 then
       (case ops_end ops of Some e \<Rightarrow> e (ctx1\<lparr>inuse := False\<rparr>) x1 y1 addv mode = Inr (ctx', x', y')
        | None \<Rightarrow> (ctx', x', y') = (ctx1, x1, y1))
     else (ctx', x', y') = (ctx1, x1, y1)"
    by blast
  from phase_keeps_flagsD[OF kb b]
  have f1: "inuse ctx1" and f2: "beginandendtogether ctx1 = beginandendtogether ctx"
    by simp_all
  have A: "(\<exists>ctx1 x1 y1. ops_begin ops (ctx\<lparr>inuse := True\<rparr>) x y addv mode = Inr (ctx1, x1, y1)
                \<and> e (ctx1\<lparr>inuse := False\<rparr>) x1 y1 addv mode = Inr (ctx', x', y'))
            \<and> \<not> inuse ctx'
            \<and> (\<forall>x2 y2 addv2 mode2. VecScatterEnd ops ctx' x2 y2 addv2 mode2 = Inr (ctx', x2, y2))"
    if m: "beginandendtogether ctx" and e: "ops_end ops = Some e"
  proof -
    from m f2 have m1: "beginandendtogether ctx1" by simp
    from rest m1 e have run: "e (ctx1\<lparr>inuse := False\<rparr>) x1 y1 addv mode = Inr (ctx', x', y')"
      by simp
    from keep e have "phase_keeps_flags e" by (simp add: ops_keep_flags_def)
    from phase_keeps_flagsD[OF this run]
    have g1: "\<not> inuse ctx'" and g2: "beginandendtogether ctx'" using m1 by simp_all
    from g1 have same: "ctx'\<lparr>inuse := False\<rparr> = ctx'" by simp
    have "VecScatterEnd ops ctx' x2 y2 addv2 mode2 = Inr (ctx', x2, y2)" for x2 y2 addv2 mode2
      using VecScatterEnd_merged[OF g2, of ops x2 y2 addv2 mode2] same by simp
    with b run g1 show ?thesis by blast
  qed
  have B: "ops_begin ops (ctx\<lparr>inuse := True\<rparr>) x y addv mode = Inr (ctx', x', y')
            \<and> inuse ctx'
            \<and> (\<forall>x2 y2 addv2 mode2 ctx2 x3 y3.
                  VecScatterEnd ops ctx' x2 y2 addv2 mode2 = Inr (ctx2, x3, y3)
                  \<longrightarrow> \<not> inuse ctx2)"
    if nm: "\<not> beginandendtogether ctx"
  proof -
    from nm f2 rest have eq: "(ctx', x', y') = (ctx1, x1, y1)" by simp
    with b f1 have "ops_begin ops (ctx\<lparr>inuse := True\<rparr>) x y addv mode = Inr (ctx', x', y')"
      and "inuse ctx'" by simp_all
    moreover have "\<not> inuse ctx2"
      if "VecScatterEnd ops ctx' x2 y2 addv2 mode2 = Inr (ctx2, x3, y3)"
      for x2 y2 addv2 mode2 ctx2 x3 y3
      using VecScatterEnd_Inr_inuse[OF keep that] .
    ultimately show ?thesis by blast
  qed
  from A B show ?thesis by blast
qed

text \<open>A merged and a split scatter on the logging backend: the log in \<open>y\<close> shows the end
  phase running once, inside Begin for the merged context and inside End for the other.\<close>

theorem VecScatterBegin_merged_witness:
  "ops_keep_flags log_ops
   \<and> VecScatterBegin True log_ops (seq_ctx\<lparr>beginandendtogether := True\<rparr>)
        (vec_of_size 3) (vec_of_size 3) INSERT_VALUES SCATTER_FORWARD
       = Inr (seq_ctx\<lparr>beginandendtogether := True\<rparr>, vec_of_size 3,
              (vec_of_size 3)\<lparr>array := [0, 1]\<rparr>)
   \<and> \<not> inuse (seq_ctx\<lparr>beginandendtogether := True\<rparr>)
   \<and> VecScatterEnd log_ops (seq_ctx\<lparr>beginandendtogether := True\<rparr>)
        (vec_of_size 3) ((vec_of_size 3)\<lparr>array := [0, 1]\<rparr>) INSERT_VALUES SCATTER_FORWARD
       = Inr (seq_ctx\<lparr>beginandendtogether := True\<rparr>, vec_of_size 3,
              (vec_of_size 3)\<lparr>array := [0, 1]\<rparr>)
   \<and> VecScatterBegin True log_ops seq_ctx
        (vec_of_size 3) (vec_of_size 3) INSERT_VALUES SCATTER_FORWARD
       = Inr (seq_ctx\<lparr>inuse := True\<rparr>, vec_of_size 3, (vec_of_size 3)\<lparr>array := [0]\<rparr>)
   \<and> inuse (seq_ctx\<lparr>inuse := True\<rparr>)
   \<and> VecScatterEnd log_ops (seq_ctx\<lparr>inuse := True\<rparr>)
        (vec_of_size 3) ((vec_of_size 3)\<lparr>array := [0]\<rparr>) INSERT_VALUES SCATTER_FORWARD
       = Inr (seq_ctx, vec_of_size 3, (vec_of_size 3)\<lparr>array := [0, 1]\<rparr>)
   \<and> \<not> inuse seq_ctx"
proof -
  have m: "VecScatterBegin True log_ops (seq_ctx\<lparr>beginandendtogether := True\<rparr>)
        (vec_of_size 3) (vec_of_size 3) INSERT_VALUES SCATTER_FORWARD
       = Inr (seq_ctx\<lparr>beginandendtogether := True\<rparr>, vec_of_size 3,
              (vec_of_size 3)\<lparr>array := [0, 1]\<rparr>)"
    by (simp add: ex_defs)
  have p: "VecScatterBegin True log_ops seq_ctx
        (vec_of_size 3) (vec_of_size 3) INSERT_VALUES SCATTER_FORWARD
       = Inr (seq_ctx\<lparr>inuse := True\<rparr>, vec_of_size 3, (vec_of_size 3)\<lparr>array := [0]\<rparr>)"
    by (simp add: ex_defs)
  have e: "VecScatterEnd log_ops (seq_ctx\<lparr>inuse := True\<rparr>)
        (vec_of_size 3) ((vec_of_size 3)\<lparr>array := [0]\<rparr>) INSERT_VALUES SCATTER_FORWARD
       = Inr (seq_ctx, vec_of_size 3, (vec_of_size 3)\<lparr>array := [0, 1]\<rparr>)"
    by (simp add: ex_defs)
  have flags: "beginandendtogether (seq_ctx\<lparr>beginandendtogether := True\<rparr>)"
    "ops_end log_ops = Some log_end" "\<not> beginandendtogether seq_ctx"
    by (simp_all add: ex_defs)
  from VecScatterBegin_merged[OF log_ops_keep_flags m, of log_end] flags
  have a: "\<not> inuse (seq_ctx\<lparr>beginandendtogether := True\<rparr>)"
    and b: "VecScatterEnd log_ops (seq_ctx\<lparr>beginandendtogether := True\<rparr>)
        (vec_of_size 3) ((vec_of_size 3)\<lparr>array := [0, 1]\<rparr>) INSERT_VALUES SCATTER_FORWARD
       = Inr (seq_ctx\<lparr>beginandendtogether := True\<rparr>, vec_of_size 3,
              (vec_of_size 3)\<lparr>array := [0, 1]\<rparr>)"
    by blast+
  from VecScatterBegin_merged[OF log_ops_keep_flags p, of log_end] flags e
  have c: "inuse (seq_ctx\<lparr>inuse := True\<rparr>)" and d: "\<not> inuse seq_ctx"
    by blast+
  from log_ops_keep_flags m a b p c e d show ?thesis by blast
qed

text \<open>
  C9. \<^verbatim>\<open>VecScatterEnd\<close> has no error of its own and never looks at the in-use flag before
  clearing it. Without an end phase, or on a merged context, it returns success with
  only the flag cleared, whatever the flag was (so without a Begin before, or a second
  time in a row). Otherwise its result is the result of the backend's end phase on the
  context with the flag cleared. On a backend that keeps the flags, every successful End
  leaves the context not in use.
\<close>

theorem VecScatterEnd_clears_inuse:
  "(ops_end ops = None \<or> beginandendtogether ctx \<longrightarrow>
      VecScatterEnd ops ctx x y addv mode = Inr (ctx\<lparr>inuse := False\<rparr>, x, y))
   \<and> (\<forall>e. ops_end ops = Some e \<and> \<not> beginandendtogether ctx \<longrightarrow>
      VecScatterEnd ops ctx x y addv mode = e (ctx\<lparr>inuse := False\<rparr>) x y addv mode)
   \<and> (ops_keep_flags ops \<longrightarrow>
       (\<forall>ctx' x' y'. VecScatterEnd ops ctx x y addv mode = Inr (ctx', x', y') \<longrightarrow> \<not> inuse ctx'))"
proof -
  have 1: "ops_end ops = None \<or> beginandendtogether ctx \<longrightarrow>
      VecScatterEnd ops ctx x y addv mode = Inr (ctx\<lparr>inuse := False\<rparr>, x, y)"
    by (auto simp: VecScatterEnd_def Let_def split: option.splits)
  have 2: "\<forall>e. ops_end ops = Some e \<and> \<not> beginandendtogether ctx \<longrightarrow>
      VecScatterEnd ops ctx x y addv mode = e (ctx\<lparr>inuse := False\<rparr>) x y addv mode"
    by (simp add: VecScatterEnd_def Let_def)
  have 3: "ops_keep_flags ops \<longrightarrow>
       (\<forall>ctx' x' y'. VecScatterEnd ops ctx x y addv mode = Inr (ctx', x', y') \<longrightarrow> \<not> inuse ctx')"
    using VecScatterEnd_Inr_inuse by blast
  from 1 2 3 show ?thesis by blast
qed

text \<open>End with no Begin before it, twice in a row, on a backend without an end phase and
  on the logging backend.\<close>

theorem VecScatterEnd_clears_inuse_witness:
  "VecScatterEnd (log_ops\<lparr>ops_end := None\<rparr>) (seq_ctx\<lparr>inuse := True\<rparr>) (vec_of_size 3)
       (vec_of_size 3) INSERT_VALUES SCATTER_FORWARD
     = Inr (seq_ctx, vec_of_size 3, vec_of_size 3)
   \<and> VecScatterEnd (log_ops\<lparr>ops_end := None\<rparr>) seq_ctx (vec_of_size 3)
       (vec_of_size 3) INSERT_VALUES SCATTER_FORWARD
     = Inr (seq_ctx, vec_of_size 3, vec_of_size 3)
   \<and> ops_keep_flags log_ops
   \<and> VecScatterEnd log_ops seq_ctx (vec_of_size 3) (vec_of_size 3) INSERT_VALUES SCATTER_FORWARD
     = Inr (seq_ctx, vec_of_size 3, (vec_of_size 3)\<lparr>array := [1]\<rparr>)
   \<and> \<not> inuse seq_ctx"
proof -
  have same: "seq_ctx\<lparr>inuse := False\<rparr> = seq_ctx" "seq_ctx\<lparr>inuse := True, inuse := False\<rparr> = seq_ctx"
    by (simp_all add: seq_ctx_def ctx_of_def)
  have none: "ops_end (log_ops\<lparr>ops_end := None\<rparr>) = None" by simp
  have some: "ops_end log_ops = Some log_end" "\<not> beginandendtogether seq_ctx"
    by (simp_all add: ex_defs)
  have run: "log_end seq_ctx (vec_of_size 3) (vec_of_size 3) INSERT_VALUES SCATTER_FORWARD
      = Inr (seq_ctx, vec_of_size 3, (vec_of_size 3)\<lparr>array := [1]\<rparr>)"
    by (simp add: ex_defs)
  from VecScatterEnd_clears_inuse[of "log_ops\<lparr>ops_end := None\<rparr>" "seq_ctx\<lparr>inuse := True\<rparr>"
      "vec_of_size 3" "vec_of_size 3" INSERT_VALUES SCATTER_FORWARD] none same
  have a: "VecScatterEnd (log_ops\<lparr>ops_end := None\<rparr>) (seq_ctx\<lparr>inuse := True\<rparr>) (vec_of_size 3)
       (vec_of_size 3) INSERT_VALUES SCATTER_FORWARD = Inr (seq_ctx, vec_of_size 3, vec_of_size 3)"
    by simp
  from VecScatterEnd_clears_inuse[of "log_ops\<lparr>ops_end := None\<rparr>" seq_ctx
      "vec_of_size 3" "vec_of_size 3" INSERT_VALUES SCATTER_FORWARD] none same
  have b: "VecScatterEnd (log_ops\<lparr>ops_end := None\<rparr>) seq_ctx (vec_of_size 3)
       (vec_of_size 3) INSERT_VALUES SCATTER_FORWARD = Inr (seq_ctx, vec_of_size 3, vec_of_size 3)"
    by simp
  from VecScatterEnd_clears_inuse[of log_ops seq_ctx
      "vec_of_size 3" "vec_of_size 3" INSERT_VALUES SCATTER_FORWARD] some same run
  have c: "VecScatterEnd log_ops seq_ctx (vec_of_size 3) (vec_of_size 3) INSERT_VALUES
       SCATTER_FORWARD = Inr (seq_ctx, vec_of_size 3, (vec_of_size 3)\<lparr>array := [1]\<rparr>)"
    by simp
  from VecScatterEnd_clears_inuse[of log_ops seq_ctx
      "vec_of_size 3" "vec_of_size 3" INSERT_VALUES SCATTER_FORWARD] log_ops_keep_flags c
  have d: "\<not> inuse seq_ctx" by blast
  from a b c d log_ops_keep_flags show ?thesis by blast
qed

text \<open>
  C3, as the code has it. The claim as stated fails twice: a context that is in use
  gets the wrong-state error before any size is looked at, and the size check exists in a
  debug build only.
\<close>

theorem VecScatterBegin_size_check_counterexample:
  "0 \<le> from_n (seq_ctx\<lparr>inuse := True\<rparr>) \<and> 0 \<le> to_n (seq_ctx\<lparr>inuse := True\<rparr>)
   \<and> VecGetLocalSize (vec_of_size 5) \<noteq> from_n (seq_ctx\<lparr>inuse := True\<rparr>)
   \<and> VecScatterBegin True log_ops (seq_ctx\<lparr>inuse := True\<rparr>) (vec_of_size 5) (vec_of_size 3)
        INSERT_VALUES SCATTER_FORWARD
      = Inl (SETERRQ PETSC_ERR_ARG_WRONGSTATE '' Scatter ctx already in use'',
             (seq_ctx\<lparr>inuse := True\<rparr>, vec_of_size 5, vec_of_size 3))
   \<and> errcode (SETERRQ PETSC_ERR_ARG_WRONGSTATE '' Scatter ctx already in use'') \<noteq> PETSC_ERR_ARG_SIZ
   \<and> 0 \<le> from_n seq_ctx \<and> 0 \<le> to_n seq_ctx
   \<and> VecGetLocalSize (vec_of_size 5) \<noteq> from_n seq_ctx
   \<and> VecScatterBegin False log_ops seq_ctx (vec_of_size 5) (vec_of_size 3)
        INSERT_VALUES SCATTER_FORWARD
      = Inr (seq_ctx\<lparr>inuse := True\<rparr>, vec_of_size 5, (vec_of_size 3)\<lparr>array := [0]\<rparr>)"
  by (simp add: ex_defs SETERRQ_def)

text \<open>
  C3 (amended). In a debug build, on a context that is not in use and whose two declared
  sizes are both known (not negative), \<^verbatim>\<open>VecScatterBegin\<close> fails with the size error that
  names the dimension and carries the two sizes, leaving context and vectors unchanged:
  forward, when \<open>y\<close> differs from the declared to size, or else \<open>x\<close> from the declared
  from size; reverse, when \<open>y\<close> differs from the declared from size, or else \<open>x\<close> from
  the declared to size. When the sizes agree, when one declared size is negative
  (unknown), or in a build without debugging, no size is checked and Begin is the run of
  the backend phases, whatever the local sizes of the vectors are.
\<close>

theorem VecScatterBegin_size_check:
  assumes "\<not> inuse ctx"
  shows
   "(dbg \<and> 0 \<le> from_n ctx \<and> 0 \<le> to_n ctx \<and> \<not> mode_and_REVERSE mode
       \<and> VecGetLocalSize y \<noteq> to_n ctx \<longrightarrow>
      VecScatterBegin dbg ops ctx x y addv mode =
        Inl (SETERRQ2 PETSC_ERR_ARG_SIZ
              ''Vector wrong size %D for scatter %D (scatter forward and vector to != ctx to size)''
              (VecGetLocalSize y) (to_n ctx), (ctx, x, y)))
    \<and> (dbg \<and> 0 \<le> from_n ctx \<and> 0 \<le> to_n ctx \<and> \<not> mode_and_REVERSE mode
       \<and> VecGetLocalSize y = to_n ctx \<and> VecGetLocalSize x \<noteq> from_n ctx \<longrightarrow>
      VecScatterBegin dbg ops ctx x y addv mode =
        Inl (SETERRQ2 PETSC_ERR_ARG_SIZ
              ''Vector wrong size %D for scatter %D (scatter forward and vector from != ctx from size)''
              (VecGetLocalSize x) (from_n ctx), (ctx, x, y)))
    \<and> (dbg \<and> 0 \<le> from_n ctx \<and> 0 \<le> to_n ctx \<and> mode_and_REVERSE mode
       \<and> VecGetLocalSize y \<noteq> from_n ctx \<longrightarrow>
      VecScatterBegin dbg ops ctx x y addv mode =
        Inl (SETERRQ2 PETSC_ERR_ARG_SIZ
              ''Vector wrong size %D for scatter %D (scatter reverse and vector to != ctx from size)''
              (VecGetLocalSize y) (from_n ctx), (ctx, x, y)))
    \<and> (dbg \<and> 0 \<le> from_n ctx \<and> 0 \<le> to_n ctx \<and> mode_and_REVERSE mode
       \<and> VecGetLocalSize y = from_n ctx \<and> VecGetLocalSize x \<noteq> to_n ctx \<longrightarrow>
      VecScatterBegin dbg ops ctx x y addv mode =
        Inl (SETERRQ2 PETSC_ERR_ARG_SIZ
              ''Vector wrong size %D for scatter %D (scatter reverse and vector from != ctx to size)''
              (VecGetLocalSize x) (to_n ctx), (ctx, x, y)))
    \<and> (dbg \<and> 0 \<le> from_n ctx \<and> 0 \<le> to_n ctx \<and> \<not> mode_and_REVERSE mode
       \<and> VecGetLocalSize y = to_n ctx \<and> VecGetLocalSize x = from_n ctx \<longrightarrow>
      VecScatterBegin dbg ops ctx x y addv mode = VecScatterBegin_phases ops ctx x y addv mode)
    \<and> (dbg \<and> 0 \<le> from_n ctx \<and> 0 \<le> to_n ctx \<and> mode_and_REVERSE mode
       \<and> VecGetLocalSize y = from_n ctx \<and> VecGetLocalSize x = to_n ctx \<longrightarrow>
      VecScatterBegin dbg ops ctx x y addv mode = VecScatterBegin_phases ops ctx x y addv mode)
    \<and> (\<not> dbg \<or> from_n ctx < 0 \<or> to_n ctx < 0 \<longrightarrow>
      VecScatterBegin dbg ops ctx x y addv mode = VecScatterBegin_phases ops ctx x y addv mode)"
  using assms
  by (simp add: VecScatterBegin_def VecScatterBegin_sizes_def Let_def)

theorem VecScatterBegin_size_check_witness:
  "\<not> inuse seq_ctx
   \<and> VecScatterBegin True log_ops seq_ctx (vec_of_size 3) (vec_of_size 4)
        INSERT_VALUES SCATTER_FORWARD
      = Inl (SETERRQ2 PETSC_ERR_ARG_SIZ
              ''Vector wrong size %D for scatter %D (scatter forward and vector to != ctx to size)''
              4 3, (seq_ctx, vec_of_size 3, vec_of_size 4))
   \<and> VecScatterBegin True log_ops seq_ctx (vec_of_size 5) (vec_of_size 3)
        INSERT_VALUES SCATTER_FORWARD
      = Inl (SETERRQ2 PETSC_ERR_ARG_SIZ
              ''Vector wrong size %D for scatter %D (scatter forward and vector from != ctx from size)''
              5 3, (seq_ctx, vec_of_size 5, vec_of_size 3))
   \<and> VecScatterBegin True log_ops (seq_ctx\<lparr>from_n := 2\<rparr>) (vec_of_size 3) (vec_of_size 3)
        INSERT_VALUES SCATTER_REVERSE
      = Inl (SETERRQ2 PETSC_ERR_ARG_SIZ
              ''Vector wrong size %D for scatter %D (scatter reverse and vector to != ctx from size)''
              3 2, (seq_ctx\<lparr>from_n := 2\<rparr>, vec_of_size 3, vec_of_size 3))
   \<and> VecScatterBegin True log_ops (seq_ctx\<lparr>from_n := 2\<rparr>) (vec_of_size 5) (vec_of_size 2)
        INSERT_VALUES SCATTER_REVERSE
      = Inl (SETERRQ2 PETSC_ERR_ARG_SIZ
              ''Vector wrong size %D for scatter %D (scatter reverse and vector from != ctx to size)''
              5 3, (seq_ctx\<lparr>from_n := 2\<rparr>, vec_of_size 5, vec_of_size 2))
   \<and> VecScatterBegin True log_ops (seq_ctx\<lparr>from_n := 2\<rparr>) (vec_of_size 3) (vec_of_size 2)
        INSERT_VALUES SCATTER_REVERSE
      = Inr (seq_ctx\<lparr>from_n := 2, inuse := True\<rparr>, vec_of_size 3, (vec_of_size 2)\<lparr>array := [0]\<rparr>)
   \<and> VecScatterBegin True log_ops (seq_ctx\<lparr>from_n := - 1\<rparr>) (vec_of_size 5) (vec_of_size 7)
        INSERT_VALUES SCATTER_FORWARD
      = Inr (seq_ctx\<lparr>from_n := - 1, inuse := True\<rparr>, vec_of_size 5, (vec_of_size 7)\<lparr>array := [0]\<rparr>)"
proof -
  have n: "\<not> inuse seq_ctx" "\<not> inuse (seq_ctx\<lparr>from_n := 2\<rparr>)" "\<not> inuse (seq_ctx\<lparr>from_n := - 1\<rparr>)"
    by (simp_all add: seq_ctx_def ctx_of_def)
  have v: "VecGetLocalSize (vec_of_size k) = k" for k
    by (simp add: VecGetLocalSize_def vec_of_size_def)
  have s: "from_n seq_ctx = 3" "to_n seq_ctx = 3" "to_n (seq_ctx\<lparr>from_n := 2\<rparr>) = 3"
    "from_n (seq_ctx\<lparr>from_n := 2\<rparr>) = 2" "from_n (seq_ctx\<lparr>from_n := - 1\<rparr>) = - 1"
    by (simp_all add: seq_ctx_def ctx_of_def)
  have m: "\<not> mode_and_REVERSE SCATTER_FORWARD" "mode_and_REVERSE SCATTER_REVERSE"
    by (simp_all add: mode_and_REVERSE_def)
  have p1: "VecScatterBegin_phases log_ops (seq_ctx\<lparr>from_n := 2\<rparr>) (vec_of_size 3) (vec_of_size 2)
        INSERT_VALUES SCATTER_REVERSE
      = Inr (seq_ctx\<lparr>from_n := 2, inuse := True\<rparr>, vec_of_size 3, (vec_of_size 2)\<lparr>array := [0]\<rparr>)"
    by (simp add: ex_defs)
  have p2: "VecScatterBegin_phases log_ops (seq_ctx\<lparr>from_n := - 1\<rparr>) (vec_of_size 5) (vec_of_size 7)
        INSERT_VALUES SCATTER_FORWARD
      = Inr (seq_ctx\<lparr>from_n := - 1, inuse := True\<rparr>, vec_of_size 5, (vec_of_size 7)\<lparr>array := [0]\<rparr>)"
    by (simp add: ex_defs)
  from VecScatterBegin_size_check[OF n(1), of True SCATTER_FORWARD "vec_of_size 4" log_ops
      "vec_of_size 3" INSERT_VALUES] v s m
  have a: "VecScatterBegin True log_ops seq_ctx (vec_of_size 3) (vec_of_size 4)
        INSERT_VALUES SCATTER_FORWARD
      = Inl (SETERRQ2 PETSC_ERR_ARG_SIZ
              ''Vector wrong size %D for scatter %D (scatter forward and vector to != ctx to size)''
              4 3, (seq_ctx, vec_of_size 3, vec_of_size 4))" by simp
  from VecScatterBegin_size_check[OF n(1), of True SCATTER_FORWARD "vec_of_size 3" log_ops
      "vec_of_size 5" INSERT_VALUES] v s m
  have b: "VecScatterBegin True log_ops seq_ctx (vec_of_size 5) (vec_of_size 3)
        INSERT_VALUES SCATTER_FORWARD
      = Inl (SETERRQ2 PETSC_ERR_ARG_SIZ
              ''Vector wrong size %D for scatter %D (scatter forward and vector from != ctx from size)''
              5 3, (seq_ctx, vec_of_size 5, vec_of_size 3))" by simp
  from VecScatterBegin_size_check[OF n(2), of True SCATTER_REVERSE "vec_of_size 3" log_ops
      "vec_of_size 3" INSERT_VALUES] v s m
  have c: "VecScatterBegin True log_ops (seq_ctx\<lparr>from_n := 2\<rparr>) (vec_of_size 3) (vec_of_size 3)
        INSERT_VALUES SCATTER_REVERSE
      = Inl (SETERRQ2 PETSC_ERR_ARG_SIZ
              ''Vector wrong size %D for scatter %D (scatter reverse and vector to != ctx from size)''
              3 2, (seq_ctx\<lparr>from_n := 2\<rparr>, vec_of_size 3, vec_of_size 3))" by simp
  from VecScatterBegin_size_check[OF n(2), of True SCATTER_REVERSE "vec_of_size 2" log_ops
      "vec_of_size 5" INSERT_VALUES] v s m
  have d: "VecScatterBegin True log_ops (seq_ctx\<lparr>from_n := 2\<rparr>) (vec_of_size 5) (vec_of_size 2)
        INSERT_VALUES SCATTER_REVERSE
      = Inl (SETERRQ2 PETSC_ERR_ARG_SIZ
              ''Vector wrong size %D for scatter %D (scatter reverse and vector from != ctx to size)''
              5 3, (seq_ctx\<lparr>from_n := 2\<rparr>, vec_of_size 5, vec_of_size 2))" by simp
  from VecScatterBegin_size_check[OF n(2), of True SCATTER_REVERSE "vec_of_size 2" log_ops
      "vec_of_size 3" INSERT_VALUES] v s m p1
  have e: "VecScatterBegin True log_ops (seq_ctx\<lparr>from_n := 2\<rparr>) (vec_of_size 3) (vec_of_size 2)
        INSERT_VALUES SCATTER_REVERSE
      = Inr (seq_ctx\<lparr>from_n := 2, inuse := True\<rparr>, vec_of_size 3, (vec_of_size 2)\<lparr>array := [0]\<rparr>)"
    by simp
  from VecScatterBegin_size_check[OF n(3), of True SCATTER_FORWARD "vec_of_size 7" log_ops
      "vec_of_size 5" INSERT_VALUES] s p2
  have f: "VecScatterBegin True log_ops (seq_ctx\<lparr>from_n := - 1\<rparr>) (vec_of_size 5) (vec_of_size 7)
        INSERT_VALUES SCATTER_FORWARD
      = Inr (seq_ctx\<lparr>from_n := - 1, inuse := True\<rparr>, vec_of_size 5, (vec_of_size 7)\<lparr>array := [0]\<rparr>)"
    by simp
  from n(1) a b c d e f show ?thesis by blast
qed

subsection \<open>Remap: the loops in closed form\<close>

lemma remap_loop_length: "length (remap_loop tomap i N a) = length a"
proof (induction tomap i N a rule: remap_loop.induct)
  case (1 tomap i N a)
  show ?case
  proof (cases "i < N")
    case True
    with 1 show ?thesis by (subst remap_loop.simps) simp
  next
    case False
    then show ?thesis by (subst remap_loop.simps) simp
  qed
qed

lemma remap_loop_nth:
  "0 \<le> i \<Longrightarrow> j < length a \<Longrightarrow>
     remap_loop tomap i N a ! j = (if i \<le> int j \<and> int j < N then tomap (a ! j) else a ! j)"
proof (induction tomap i N a rule: remap_loop.induct)
  case (1 tomap i N a)
  show ?case
  proof (cases "i < N")
    case True
    from 1(2,3) have pre: "0 \<le> i + 1" "j < length (a[nat i := tomap (a ! nat i)])" by simp_all
    have step: "remap_loop tomap i N a = remap_loop tomap (i + 1) N (a[nat i := tomap (a ! nat i)])"
      using True by (subst remap_loop.simps) simp
    show ?thesis
    proof (cases "j = nat i")
      case eq: True
      with 1(2,3) True show ?thesis
        unfolding step "1.IH"[OF True pre] by simp
    next
      case ne: False
      with 1(2,3) True show ?thesis
        unfolding step "1.IH"[OF True pre] by (auto simp: nat_eq_iff)
    qed
  next
    case False
    then show ?thesis by (subst remap_loop.simps) auto
  qed
qed

lemma remap_loop_eq:
  "remap_loop tomap 0 N a = map tomap (take (nat N) a) @ drop (nat N) a"
proof (rule nth_equalityI)
  show "length (remap_loop tomap 0 N a) = length (map tomap (take (nat N) a) @ drop (nat N) a)"
    by (simp add: remap_loop_length)
next
  fix j assume "j < length (remap_loop tomap 0 N a)"
  then have j: "j < length a" by (simp add: remap_loop_length)
  show "remap_loop tomap 0 N a ! j = (map tomap (take (nat N) a) @ drop (nat N) a) ! j"
  proof (cases "int j < N")
    case True
    then have "j < nat N" by linarith
    with j True show ?thesis by (simp add: remap_loop_nth nth_append)
  next
    case False
    then have "\<not> j < nat N" by linarith
    with j False show ?thesis by (simp add: remap_loop_nth nth_append min_def)
  qed
qed

lemma remap_loop_map_first: "remap_loop tomap 0 N a = map_first tomap N a"
  by (simp add: remap_loop_eq map_first_def)

lemma remap_identity_iff_from:
  "remap_identity tomap i N \<longleftrightarrow> (\<forall>k. i \<le> k \<and> k < N \<longrightarrow> tomap k = k)"
proof (induction tomap i N rule: remap_identity.induct)
  case (1 tomap i N)
  show ?case
  proof (cases "i < N")
    case True
    show ?thesis
    proof (cases "tomap i = i")
      case same: True
      have "remap_identity tomap i N = remap_identity tomap (i + 1) N"
        using True same by (subst remap_identity.simps) simp
      also have "\<dots> \<longleftrightarrow> (\<forall>k. i + 1 \<le> k \<and> k < N \<longrightarrow> tomap k = k)"
        using "1.IH" True same by simp
      also have "\<dots> \<longleftrightarrow> (\<forall>k. i \<le> k \<and> k < N \<longrightarrow> tomap k = k)"
      proof
        assume h: "\<forall>k. i + 1 \<le> k \<and> k < N \<longrightarrow> tomap k = k"
        show "\<forall>k. i \<le> k \<and> k < N \<longrightarrow> tomap k = k"
        proof (intro allI impI)
          fix k assume "i \<le> k \<and> k < N"
          then have "k = i \<or> (i + 1 \<le> k \<and> k < N)" by arith
          with h same show "tomap k = k" by blast
        qed
      next
        assume "\<forall>k. i \<le> k \<and> k < N \<longrightarrow> tomap k = k"
        then show "\<forall>k. i + 1 \<le> k \<and> k < N \<longrightarrow> tomap k = k" by simp
      qed
      finally show ?thesis .
    next
      case diff: False
      have "\<not> remap_identity tomap i N"
        using True diff by (subst remap_identity.simps) simp
      moreover from True diff have "\<not> (\<forall>k. i \<le> k \<and> k < N \<longrightarrow> tomap k = k)" by auto
      ultimately show ?thesis by blast
    qed
  next
    case False
    then show ?thesis by (subst remap_identity.simps) auto
  qed
qed

lemma remap_identity_iff:
  "remap_identity tomap 0 N \<longleftrightarrow> (\<forall>k. 0 \<le> k \<and> k < N \<longrightarrow> tomap k = k)"
  by (rule remap_identity_iff_from)

lemma VecScatterRemap_Inr:
  assumes "VecScatterRemap pl scat tomap frommap = Inr scat'"
  shows "frommap = None" and "to_n scat' = - 1" and "from_n scat' = - 1"
  using assms unfolding VecScatterRemap_def
  by (auto split: sum.splits option.splits prod.splits)

lemmas remap_defs = VecScatterRemap_def VecScatterRemap_tomap_def VecScatterRemap_sgfrom_def
  VecScatterMemcpyPlanDestroy_def empty_planner_def sg_of_def stride_of_def ctx_of_def
  seq_ctx_def Let_def remap_loop_eq remap_identity_iff id_map_def shift_map_def
  remapped_ctx_def stride_to_ctx_def stride_from_ctx_def toall_ctx_def mpi_to_def mpi_from_def
  mpi_ctx_def

lemma VecScatterRemap_tomap_Inl_sizes:
  assumes "VecScatterRemap_tomap pl scat tm = Inl (e, s)"
  shows "to_n s = to_n scat \<and> from_n s = from_n scat"
  using assms unfolding VecScatterRemap_tomap_def VecScatterRemap_sgfrom_def Let_def
  by (auto split: VecScatterData.splits sum.splits prod.splits if_splits)

lemma VecScatterRemap_tomap_Inr_sizes:
  assumes "VecScatterRemap_tomap pl scat tm = Inr s"
  shows "to_n s = to_n scat \<and> from_n s = from_n scat"
  using assms unfolding VecScatterRemap_tomap_def VecScatterRemap_sgfrom_def Let_def
  by (auto split: VecScatterData.splits sum.splits prod.splits if_splits)

lemma VecScatterRemap_Inl_sizes:
  assumes "VecScatterRemap pl scat tomap frommap = Inl (e, s)"
  shows "to_n s = to_n scat \<and> from_n s = from_n scat"
  using assms VecScatterRemap_tomap_Inl_sizes VecScatterRemap_tomap_Inr_sizes
  unfolding VecScatterRemap_def
  by (fastforce split: option.splits sum.splits)

subsection \<open>The claims on Remap\<close>

text \<open>
  C4. After a successful \<^verbatim>\<open>VecScatterRemap\<close> both declared sizes are -1, the mark for
  unknown. A following \<^verbatim>\<open>VecScatterBegin\<close> then raises no size error, whatever the local
  sizes of the two vectors and whatever the mode: its size check answers nothing, the
  debug build behaves as the build without the check, and on a context that is not in
  use Begin is the run of the backend phases.
\<close>

theorem VecScatterRemap_sizes_unknown:
  assumes "VecScatterRemap pl scat tomap frommap = Inr scat'"
  shows "to_n scat' = - 1 \<and> from_n scat' = - 1
    \<and> VecScatterBegin_sizes scat' x y mode = None
    \<and> VecScatterBegin True ops scat' x y addv mode = VecScatterBegin False ops scat' x y addv mode
    \<and> (\<not> inuse scat' \<longrightarrow>
         VecScatterBegin dbg ops scat' x y addv mode = VecScatterBegin_phases ops scat' x y addv mode)"
proof -
  from VecScatterRemap_Inr[OF assms] have s: "to_n scat' = - 1" "from_n scat' = - 1" by simp_all
  then have c: "VecScatterBegin_sizes scat' x y mode = None"
    by (simp add: VecScatterBegin_sizes_def)
  with s show ?thesis by (simp add: VecScatterBegin_def)
qed

text \<open>A remap of \<open>seq_ctx\<close> (declared sizes 3 and 3), then a Begin on vectors of sizes 7
  and 9 in a debug build.\<close>

theorem VecScatterRemap_sizes_unknown_witness:
  "VecScatterRemap empty_planner seq_ctx (Some shift_map) None = Inr remapped_ctx
   \<and> to_n remapped_ctx = - 1 \<and> from_n remapped_ctx = - 1
   \<and> \<not> inuse remapped_ctx
   \<and> VecScatterBegin True log_ops remapped_ctx (vec_of_size 7) (vec_of_size 9)
        INSERT_VALUES SCATTER_FORWARD
      = Inr (remapped_ctx\<lparr>inuse := True\<rparr>, vec_of_size 7, (vec_of_size 9)\<lparr>array := [0]\<rparr>)"
proof -
  have r: "VecScatterRemap empty_planner seq_ctx (Some shift_map) None = Inr remapped_ctx"
    by (simp add: remap_defs)
  have n: "\<not> inuse remapped_ctx" by (simp add: remap_defs)
  have p: "VecScatterBegin_phases log_ops remapped_ctx (vec_of_size 7) (vec_of_size 9)
        INSERT_VALUES SCATTER_FORWARD
      = Inr (remapped_ctx\<lparr>inuse := True\<rparr>, vec_of_size 7, (vec_of_size 9)\<lparr>array := [0]\<rparr>)"
    by (simp add: ex_defs remapped_ctx_def)
  from VecScatterRemap_sizes_unknown[OF r, of "vec_of_size 7" "vec_of_size 9" SCATTER_FORWARD
      log_ops INSERT_VALUES True] n
  have s: "to_n remapped_ctx = - 1" "from_n remapped_ctx = - 1"
    and b: "VecScatterBegin True log_ops remapped_ctx (vec_of_size 7) (vec_of_size 9)
        INSERT_VALUES SCATTER_FORWARD
      = VecScatterBegin_phases log_ops remapped_ctx (vec_of_size 7) (vec_of_size 9)
        INSERT_VALUES SCATTER_FORWARD"
    by blast+
  from r s n b p show ?thesis by simp
qed

text \<open>
  C5, as the code has it. The test for a stride reads the from side, not the to side:
  with a to side that is a stride (not the identity) and a from side that is a general
  list, a remap that is not the identity succeeds and rewrites the from side.
\<close>

theorem VecScatterRemap_stride_counterexample:
  "format (todata stride_to_ctx) = VEC_SCATTER_SEQ_STRIDE
   \<and> todata stride_to_ctx = Seq_Stride (stride_of 3 2 5)
   \<and> ss_first (stride_of 3 2 5) \<noteq> 0 \<and> ss_step (stride_of 3 2 5) \<noteq> 1
   \<and> shift_map 0 \<noteq> 0
   \<and> VecScatterRemap empty_planner stride_to_ctx (Some shift_map) None
      = Inr (stride_to_ctx\<lparr>to_n := - 1, from_n := - 1,
               fromdata := Seq_General (sg_of [1, 2, 3])\<rparr>)"
  by (simp add: remap_defs)

text \<open>
  C5 (amended). Let the from side be a stride and the to side neither distributed-general
  nor to-all. \<^verbatim>\<open>VecScatterRemap\<close> with a map for the to indices and none for the from indices
  succeeds exactly when the stride of the from side is the identity (first 0, step 1) and
  the map sends every position below the count to itself; its only effect is then to
  mark both declared sizes unknown. In every other case it fails with the size error and
  the context is as before.
\<close>

theorem VecScatterRemap_stride:
  assumes "fromdata scat = Seq_Stride ssto"
    and "format (todata scat) \<noteq> VEC_SCATTER_MPI_GENERAL"
    and "format (todata scat) \<noteq> VEC_SCATTER_MPI_TOALL"
  shows "(ss_step ssto = 1 \<and> ss_first ssto = 0
            \<and> (\<forall>i. 0 \<le> i \<and> i < ss_n ssto \<longrightarrow> tomap i = i) \<longrightarrow>
          VecScatterRemap pl scat (Some tomap) None = Inr (scat\<lparr>from_n := - 1, to_n := - 1\<rparr>))
       \<and> (\<not> (ss_step ssto = 1 \<and> ss_first ssto = 0
            \<and> (\<forall>i. 0 \<le> i \<and> i < ss_n ssto \<longrightarrow> tomap i = i)) \<longrightarrow>
          VecScatterRemap pl scat (Some tomap) None
            = Inl (SETERRQ PETSC_ERR_ARG_SIZ ''Unable to remap such scatters'', scat))"
proof (cases "todata scat")
  case (Seq_General sgto)
  with assms(1) show ?thesis
    by (simp add: VecScatterRemap_def VecScatterRemap_tomap_def remap_identity_iff)
next
  case (Seq_Stride s)
  with assms(1) show ?thesis
    by (simp add: VecScatterRemap_def VecScatterRemap_tomap_def remap_identity_iff)
next
  case (MPI_General to)
  with assms(2) show ?thesis by simp
next
  case MPI_ToAll
  with assms(3) show ?thesis by simp
qed

theorem VecScatterRemap_stride_witness:
  "VecScatterRemap empty_planner (stride_from_ctx 0 1) (Some id_map) None
      = Inr ((stride_from_ctx 0 1)\<lparr>from_n := - 1, to_n := - 1\<rparr>)
   \<and> VecScatterRemap empty_planner (stride_from_ctx 0 1) (Some shift_map) None
      = Inl (SETERRQ PETSC_ERR_ARG_SIZ ''Unable to remap such scatters'', stride_from_ctx 0 1)
   \<and> VecScatterRemap empty_planner (stride_from_ctx 2 1) (Some id_map) None
      = Inl (SETERRQ PETSC_ERR_ARG_SIZ ''Unable to remap such scatters'', stride_from_ctx 2 1)"
proof -
  have f: "fromdata (stride_from_ctx a b) = Seq_Stride (stride_of 3 a b)"
    "format (todata (stride_from_ctx a b)) \<noteq> VEC_SCATTER_MPI_GENERAL"
    "format (todata (stride_from_ctx a b)) \<noteq> VEC_SCATTER_MPI_TOALL" for a b
    by (simp_all add: stride_from_ctx_def ctx_of_def)
  have i: "\<forall>i. 0 \<le> i \<and> i < ss_n (stride_of 3 0 1) \<longrightarrow> id_map i = i"
    by (simp add: id_map_def)
  have s: "\<not> (\<forall>i. 0 \<le> i \<and> i < ss_n (stride_of 3 0 1) \<longrightarrow> shift_map i = i)"
    by (simp add: shift_map_def stride_of_def) presburger
  have v: "ss_step (stride_of 3 a b) = b" "ss_first (stride_of 3 a b) = a" for a b
    by (simp_all add: stride_of_def)
  from VecScatterRemap_stride[OF f, of 0 1 id_map empty_planner] i v
  have a: "VecScatterRemap empty_planner (stride_from_ctx 0 1) (Some id_map) None
      = Inr ((stride_from_ctx 0 1)\<lparr>from_n := - 1, to_n := - 1\<rparr>)" by simp
  from VecScatterRemap_stride[OF f, of 0 1 shift_map empty_planner] s v
  have b: "VecScatterRemap empty_planner (stride_from_ctx 0 1) (Some shift_map) None
      = Inl (SETERRQ PETSC_ERR_ARG_SIZ ''Unable to remap such scatters'', stride_from_ctx 0 1)"
    by simp
  from VecScatterRemap_stride[OF f, of 2 1 id_map empty_planner] v
  have c: "VecScatterRemap empty_planner (stride_from_ctx 2 1) (Some id_map) None
      = Inl (SETERRQ PETSC_ERR_ARG_SIZ ''Unable to remap such scatters'', stride_from_ctx 2 1)"
    by simp
  from a b c show ?thesis by blast
qed

text \<open>
  C6, as the code has it. The map for the to indices is handled first: on a to-all
  backend the call fails there, with the size error, before the map for the from indices
  is looked at.
\<close>

theorem VecScatterRemap_frommap_counterexample:
  "todata toall_ctx = MPI_ToAll
   \<and> VecScatterRemap empty_planner toall_ctx (Some id_map) (Some id_map)
      = Inl (SETERRQ PETSC_ERR_ARG_SIZ ''Not for to all scatter'', toall_ctx)
   \<and> errcode (SETERRQ PETSC_ERR_ARG_SIZ ''Not for to all scatter'') \<noteq> PETSC_ERR_SUP"
  by (simp add: remap_defs SETERRQ_def)

text \<open>
  C6 (amended). \<^verbatim>\<open>VecScatterRemap\<close> with a map for the from indices never succeeds, and it
  never reads that map: any two such maps give the same result. With no map for the to
  indices it fails with the not-supported error and leaves the context as it was. With
  one, it fails with the not-supported error when the remap of the to indices alone
  would have succeeded (the state left behind is that remap's, without the sizes marked
  unknown), and with the error of that remap when it alone would have failed.
\<close>

theorem VecScatterRemap_frommap:
  "(\<forall>s. VecScatterRemap pl scat tomap (Some fm) \<noteq> Inr s)
   \<and> VecScatterRemap pl scat tomap (Some fm) = VecScatterRemap pl scat tomap (Some fm')
   \<and> VecScatterRemap pl scat None (Some fm)
      = Inl (SETERRQ PETSC_ERR_SUP ''Unable to remap the FROM in scatters yet'', scat)
   \<and> (\<forall>s. VecScatterRemap pl scat tomap None = Inr s \<longrightarrow>
        (\<exists>s1. VecScatterRemap pl scat tomap (Some fm)
                = Inl (SETERRQ PETSC_ERR_SUP ''Unable to remap the FROM in scatters yet'', s1)
              \<and> s = s1\<lparr>from_n := - 1, to_n := - 1\<rparr>))
   \<and> (\<forall>err. VecScatterRemap pl scat tomap None = Inl err \<longrightarrow>
        VecScatterRemap pl scat tomap (Some fm) = Inl err)"
  unfolding VecScatterRemap_def
  by (auto split: sum.splits option.splits)

theorem VecScatterRemap_frommap_witness:
  "VecScatterRemap empty_planner seq_ctx None (Some id_map)
      = Inl (SETERRQ PETSC_ERR_SUP ''Unable to remap the FROM in scatters yet'', seq_ctx)
   \<and> VecScatterRemap empty_planner seq_ctx (Some shift_map) None = Inr remapped_ctx
   \<and> VecScatterRemap empty_planner seq_ctx (Some shift_map) (Some id_map)
      = Inl (SETERRQ PETSC_ERR_SUP ''Unable to remap the FROM in scatters yet'',
             remapped_ctx\<lparr>from_n := 3, to_n := 3\<rparr>)
   \<and> VecScatterRemap empty_planner toall_ctx (Some id_map) None
      = Inl (SETERRQ PETSC_ERR_ARG_SIZ ''Not for to all scatter'', toall_ctx)
   \<and> VecScatterRemap empty_planner toall_ctx (Some id_map) (Some shift_map)
      = Inl (SETERRQ PETSC_ERR_ARG_SIZ ''Not for to all scatter'', toall_ctx)"
proof -
  have r: "VecScatterRemap empty_planner seq_ctx (Some shift_map) None = Inr remapped_ctx"
    by (simp add: remap_defs)
  have t: "VecScatterRemap empty_planner toall_ctx (Some id_map) None
      = Inl (SETERRQ PETSC_ERR_ARG_SIZ ''Not for to all scatter'', toall_ctx)"
    by (simp add: remap_defs)
  from VecScatterRemap_frommap[of empty_planner seq_ctx None id_map]
  have a: "VecScatterRemap empty_planner seq_ctx None (Some id_map)
      = Inl (SETERRQ PETSC_ERR_SUP ''Unable to remap the FROM in scatters yet'', seq_ctx)"
    by blast
  have direct: "VecScatterRemap empty_planner seq_ctx (Some shift_map) (Some id_map)
      = Inl (SETERRQ PETSC_ERR_SUP ''Unable to remap the FROM in scatters yet'',
             remapped_ctx\<lparr>from_n := 3, to_n := 3\<rparr>)"
    by (simp add: remap_defs)
  from VecScatterRemap_frommap[of empty_planner toall_ctx "Some id_map" shift_map] t
  have c: "VecScatterRemap empty_planner toall_ctx (Some id_map) (Some shift_map)
      = Inl (SETERRQ PETSC_ERR_ARG_SIZ ''Not for to all scatter'', toall_ctx)"
    by simp
  from a r direct t c show ?thesis by blast
qed

text \<open>
  C10, as the code has it. Where both backends are sequential the map for the to indices
  rewrites the slots of the from side: on two general lists the failing call leaves the
  to side's slots as they were; and with a from side that is a stride (not the identity)
  the call fails with the size error and rewrites nothing.
\<close>

theorem VecScatterRemap_not_atomic_counterexample:
  "todata seq_ctx = Seq_General (sg_of [3, 1, 4])
   \<and> map shift_map [3, 1, 4] \<noteq> [3, 1, 4]
   \<and> VecScatterRemap empty_planner seq_ctx (Some shift_map) (Some id_map)
      = Inl (SETERRQ PETSC_ERR_SUP ''Unable to remap the FROM in scatters yet'',
             seq_ctx\<lparr>todata := Seq_General ((sg_of [3, 1, 4])\<lparr>sg_memcpy_plan := Some []\<rparr>),
                     fromdata := Seq_General ((sg_of [1, 2, 3])\<lparr>sg_memcpy_plan := Some []\<rparr>)\<rparr>)
   \<and> todata (stride_from_ctx 2 1) = Seq_General (sg_of [3, 1, 4])
   \<and> VecScatterRemap empty_planner (stride_from_ctx 2 1) (Some shift_map) (Some id_map)
      = Inl (SETERRQ PETSC_ERR_ARG_SIZ ''Unable to remap such scatters'', stride_from_ctx 2 1)
   \<and> errcode (SETERRQ PETSC_ERR_ARG_SIZ ''Unable to remap such scatters'') \<noteq> PETSC_ERR_SUP"
  by (simp add: remap_defs SETERRQ_def)

text \<open>
  C10 (amended). \<^verbatim>\<open>VecScatterRemap\<close> with both maps, on a planner whose calls succeed, fails
  with the not-supported error only after the rewriting: on a distributed-general to side
  the message indices below \<^verbatim>\<open>starts[n]\<close> and the local slots of the to side have gone
  through the map and the plans were destroyed and created again; on a general
  sequential from side (the to side sequential) the slots of the from side have gone
  through the map, and the plan was rebuilt when the to side is a stride of step 1 or a
  general list. Whatever error the call ends with, the declared sizes are those from
  before the call.
\<close>

theorem VecScatterRemap_not_atomic:
  "(\<forall>to t1 f1 t2 f2.
      todata scat = MPI_General to
      \<and> MemcpyPlanDestroy_PtoP pl
          (to\<lparr>mg_indices := map_first tm (mg_starts to ! nat (mg_n to)) (mg_indices to),
              mg_local := (mg_local to)\<lparr>sg_vslots :=
                 map_first tm (sg_n (mg_local to)) (sg_vslots (mg_local to))\<rparr>\<rparr>)
          (fromdata scat) = Inr (t1, f1)
      \<and> MemcpyPlanCreate_PtoP pl t1 f1 = Inr (t2, f2)
      \<longrightarrow> VecScatterRemap pl scat (Some tm) (Some fm)
           = Inl (SETERRQ PETSC_ERR_SUP ''Unable to remap the FROM in scatters yet'',
                  scat\<lparr>todata := MPI_General t2, fromdata := f2\<rparr>))
   \<and> (\<forall>sgto sgfrom t f.
      todata scat = Seq_General sgto \<and> fromdata scat = Seq_General sgfrom
      \<and> MemcpyPlanCreate_SGToSG pl 1 (sgto\<lparr>sg_memcpy_plan := None\<rparr>)
          (sgfrom\<lparr>sg_vslots := map_first tm (sg_n sgfrom) (sg_vslots sgfrom),
                  sg_memcpy_plan := None\<rparr>) = Inr (t, f)
      \<longrightarrow> VecScatterRemap pl scat (Some tm) (Some fm)
           = Inl (SETERRQ PETSC_ERR_SUP ''Unable to remap the FROM in scatters yet'',
                  scat\<lparr>todata := Seq_General t, fromdata := Seq_General f\<rparr>))
   \<and> (\<forall>ssto sgfrom plan.
      todata scat = Seq_Stride ssto \<and> ss_step ssto = 1 \<and> fromdata scat = Seq_General sgfrom
      \<and> MemcpyPlanCreate_Index pl 1 [0, sg_n sgfrom]
          (map_first tm (sg_n sgfrom) (sg_vslots sgfrom)) 1 = Inr plan
      \<longrightarrow> VecScatterRemap pl scat (Some tm) (Some fm)
           = Inl (SETERRQ PETSC_ERR_SUP ''Unable to remap the FROM in scatters yet'',
                  scat\<lparr>fromdata := Seq_General (sgfrom\<lparr>sg_vslots :=
                     map_first tm (sg_n sgfrom) (sg_vslots sgfrom),
                     sg_memcpy_plan := Some plan\<rparr>)\<rparr>))
   \<and> (\<forall>ssto sgfrom.
      todata scat = Seq_Stride ssto \<and> ss_step ssto \<noteq> 1 \<and> fromdata scat = Seq_General sgfrom
      \<longrightarrow> VecScatterRemap pl scat (Some tm) (Some fm)
           = Inl (SETERRQ PETSC_ERR_SUP ''Unable to remap the FROM in scatters yet'',
                  scat\<lparr>fromdata := Seq_General (sgfrom\<lparr>sg_vslots :=
                     map_first tm (sg_n sgfrom) (sg_vslots sgfrom)\<rparr>)\<rparr>))
   \<and> (\<forall>e s. VecScatterRemap pl scat (Some tm) (Some fm) = Inl (e, s)
        \<longrightarrow> to_n s = to_n scat \<and> from_n s = from_n scat)"
proof -
  have mpi: "VecScatterRemap pl scat (Some tm) (Some fm)
           = Inl (SETERRQ PETSC_ERR_SUP ''Unable to remap the FROM in scatters yet'',
                  scat\<lparr>todata := MPI_General t2, fromdata := f2\<rparr>)"
    if "todata scat = MPI_General to"
      and "MemcpyPlanDestroy_PtoP pl
          (to\<lparr>mg_indices := map_first tm (mg_starts to ! nat (mg_n to)) (mg_indices to),
              mg_local := (mg_local to)\<lparr>sg_vslots :=
                 map_first tm (sg_n (mg_local to)) (sg_vslots (mg_local to))\<rparr>\<rparr>)
          (fromdata scat) = Inr (t1, f1)"
      and "MemcpyPlanCreate_PtoP pl t1 f1 = Inr (t2, f2)"
    for to t1 f1 t2 f2
    using that
    by (simp add: VecScatterRemap_def VecScatterRemap_tomap_def Let_def remap_loop_map_first)
  have sg: "VecScatterRemap pl scat (Some tm) (Some fm)
           = Inl (SETERRQ PETSC_ERR_SUP ''Unable to remap the FROM in scatters yet'',
                  scat\<lparr>todata := Seq_General t, fromdata := Seq_General f\<rparr>)"
    if "todata scat = Seq_General sgto" and "fromdata scat = Seq_General sgfrom"
      and "MemcpyPlanCreate_SGToSG pl 1 (sgto\<lparr>sg_memcpy_plan := None\<rparr>)
          (sgfrom\<lparr>sg_vslots := map_first tm (sg_n sgfrom) (sg_vslots sgfrom),
                  sg_memcpy_plan := None\<rparr>) = Inr (t, f)"
    for sgto sgfrom t f
    using that
    by (simp add: VecScatterRemap_def VecScatterRemap_tomap_def VecScatterRemap_sgfrom_def
        VecScatterMemcpyPlanDestroy_def Let_def remap_loop_map_first)
  have st1: "VecScatterRemap pl scat (Some tm) (Some fm)
           = Inl (SETERRQ PETSC_ERR_SUP ''Unable to remap the FROM in scatters yet'',
                  scat\<lparr>fromdata := Seq_General (sgfrom\<lparr>sg_vslots :=
                     map_first tm (sg_n sgfrom) (sg_vslots sgfrom),
                     sg_memcpy_plan := Some plan\<rparr>)\<rparr>)"
    if "todata scat = Seq_Stride ssto" and "ss_step ssto = 1"
      and "fromdata scat = Seq_General sgfrom"
      and "MemcpyPlanCreate_Index pl 1 [0, sg_n sgfrom]
          (map_first tm (sg_n sgfrom) (sg_vslots sgfrom)) 1 = Inr plan"
    for ssto sgfrom plan
    using that
    by (simp add: VecScatterRemap_def VecScatterRemap_tomap_def VecScatterRemap_sgfrom_def
        VecScatterMemcpyPlanDestroy_def Let_def remap_loop_map_first)
  have st2: "VecScatterRemap pl scat (Some tm) (Some fm)
           = Inl (SETERRQ PETSC_ERR_SUP ''Unable to remap the FROM in scatters yet'',
                  scat\<lparr>fromdata := Seq_General (sgfrom\<lparr>sg_vslots :=
                     map_first tm (sg_n sgfrom) (sg_vslots sgfrom)\<rparr>)\<rparr>)"
    if "todata scat = Seq_Stride ssto" and "ss_step ssto \<noteq> 1"
      and "fromdata scat = Seq_General sgfrom"
    for ssto sgfrom
    using that
    by (simp add: VecScatterRemap_def VecScatterRemap_tomap_def VecScatterRemap_sgfrom_def
        Let_def remap_loop_map_first)
  have sizes: "to_n s = to_n scat \<and> from_n s = from_n scat"
    if "VecScatterRemap pl scat (Some tm) (Some fm) = Inl (e, s)" for e s
    using that by (rule VecScatterRemap_Inl_sizes)
  from mpi sg st1 st2 sizes show ?thesis by blast
qed

theorem VecScatterRemap_not_atomic_witness:
  "VecScatterRemap empty_planner mpi_ctx (Some shift_map) (Some id_map)
      = Inl (SETERRQ PETSC_ERR_SUP ''Unable to remap the FROM in scatters yet'',
             mpi_ctx\<lparr>todata := MPI_General (mpi_to\<lparr>mg_indices := [5, 8, 5, 10, 2],
                        mg_local := sg_of [21, 22], mg_memcpy_plan := Some []\<rparr>),
                     fromdata := MPI_General mpi_from\<rparr>)
   \<and> to_n mpi_ctx = 3 \<and> from_n mpi_ctx = 3
   \<and> VecScatterRemap empty_planner stride_to_ctx (Some shift_map) (Some id_map)
      = Inl (SETERRQ PETSC_ERR_SUP ''Unable to remap the FROM in scatters yet'',
             stride_to_ctx\<lparr>fromdata := Seq_General (sg_of [1, 2, 3])\<rparr>)"
proof -
  have pre: "todata mpi_ctx = MPI_General mpi_to
      \<and> MemcpyPlanDestroy_PtoP empty_planner
          (mpi_to\<lparr>mg_indices := map_first shift_map (mg_starts mpi_to ! nat (mg_n mpi_to))
                      (mg_indices mpi_to),
              mg_local := (mg_local mpi_to)\<lparr>sg_vslots :=
                 map_first shift_map (sg_n (mg_local mpi_to)) (sg_vslots (mg_local mpi_to))\<rparr>\<rparr>)
          (fromdata mpi_ctx)
        = Inr (mpi_to\<lparr>mg_indices := [5, 8, 5, 10, 2], mg_local := sg_of [21, 22]\<rparr>,
               MPI_General mpi_from)
      \<and> MemcpyPlanCreate_PtoP empty_planner
          (mpi_to\<lparr>mg_indices := [5, 8, 5, 10, 2], mg_local := sg_of [21, 22]\<rparr>)
          (MPI_General mpi_from)
        = Inr (mpi_to\<lparr>mg_indices := [5, 8, 5, 10, 2], mg_local := sg_of [21, 22],
                 mg_memcpy_plan := Some []\<rparr>, MPI_General mpi_from)"
    by (simp add: remap_defs map_first_def)
  have pre2: "todata stride_to_ctx = Seq_Stride (stride_of 3 2 5)
      \<and> ss_step (stride_of 3 2 5) \<noteq> 1
      \<and> fromdata stride_to_ctx = Seq_General (sg_of [0, 1, 2])"
    by (simp add: remap_defs)
  have m: "map_first shift_map (sg_n (sg_of [0, 1, 2])) (sg_vslots (sg_of [0, 1, 2])) = [1, 2, 3]"
    by (simp add: remap_defs map_first_def)
  have u: "(sg_of [0, 1, 2])\<lparr>sg_vslots := [1, 2, 3]\<rparr> = sg_of [1, 2, 3]"
    by (simp add: sg_of_def)
  from VecScatterRemap_not_atomic[of mpi_ctx empty_planner shift_map id_map] pre
  have a: "VecScatterRemap empty_planner mpi_ctx (Some shift_map) (Some id_map)
      = Inl (SETERRQ PETSC_ERR_SUP ''Unable to remap the FROM in scatters yet'',
             mpi_ctx\<lparr>todata := MPI_General (mpi_to\<lparr>mg_indices := [5, 8, 5, 10, 2],
                        mg_local := sg_of [21, 22], mg_memcpy_plan := Some []\<rparr>),
                     fromdata := MPI_General mpi_from\<rparr>)"
    by blast
  from VecScatterRemap_not_atomic[of stride_to_ctx empty_planner shift_map id_map] pre2
  have "VecScatterRemap empty_planner stride_to_ctx (Some shift_map) (Some id_map)
      = Inl (SETERRQ PETSC_ERR_SUP ''Unable to remap the FROM in scatters yet'',
             stride_to_ctx\<lparr>fromdata := Seq_General ((sg_of [0, 1, 2])\<lparr>sg_vslots :=
                     map_first shift_map (sg_n (sg_of [0, 1, 2])) (sg_vslots (sg_of [0, 1, 2]))\<rparr>)\<rparr>)"
    by blast
  with m u have b: "VecScatterRemap empty_planner stride_to_ctx (Some shift_map) (Some id_map)
      = Inl (SETERRQ PETSC_ERR_SUP ''Unable to remap the FROM in scatters yet'',
             stride_to_ctx\<lparr>fromdata := Seq_General (sg_of [1, 2, 3])\<rparr>)"
    by simp
  have s: "to_n mpi_ctx = 3" "from_n mpi_ctx = 3" by (simp_all add: remap_defs)
  from a b s show ?thesis by blast
qed

subsection \<open>The claim on Destroy\<close>

text \<open>
  C7. Let the handle point at a live context. If the context is in use and its reference
  count is 1, \<^verbatim>\<open>VecScatterDestroy\<close> fails with the wrong-state error and changes nothing. If
  the count is above 1, the call only lowers the count by one and nulls the caller's
  handle: the header stays, and the device store and the backend's memory are untouched
  (nothing is freed, the backend's destroy operation is not run). If the count is 1 and
  the context is not in use, the backend's destroy operation (which frees the backend
  state and its plans) is run on the backend's memory if there is one, and the world
  that Destroy returns holds the memory that operation left; then, in a CUDA build, the
  device mirror behind the handle of the context is released in the device store; then
  the header leaves the world and the handle is nulled. When the backend's destroy
  operation fails, its error is passed on and the header stays. A build without CUDA
  has no device mirrors (they are made by \<^verbatim>\<open>VecScatterInitializeForGPU\<close>, which it does not
  have) and leaves the device store alone.
\<close>

theorem VecScatterDestroy_refct:
  assumes "w_objects w p = Some obj"
  shows
   "(inuse obj \<and> refct obj = 1 \<longrightarrow>
       VecScatterDestroy cuda ops w (Some p)
         = Inl (SETERRQ PETSC_ERR_ARG_WRONGSTATE ''Scatter context is in use'', (w, Some p)))
    \<and> (1 < refct obj \<longrightarrow>
       VecScatterDestroy cuda ops w (Some p)
         = Inr (w\<lparr>w_objects := (w_objects w)(p \<mapsto> obj\<lparr>refct := refct obj - 1\<rparr>)\<rparr>, None))
    \<and> (\<not> inuse obj \<and> refct obj = 1 \<and> ops_destroy ops = None \<longrightarrow>
       VecScatterDestroy True ops w (Some p)
         = Inr (w\<lparr>w_objects := (w_objects w)(p := None),
                  w_device := (case spptr obj of None \<Rightarrow> w_device w
                               | Some h \<Rightarrow> (w_device w)[h := None])\<rparr>, None)
       \<and> VecScatterDestroy False ops w (Some p)
         = Inr (w\<lparr>w_objects := (w_objects w)(p := None)\<rparr>, None))
    \<and> (\<forall>d obj2 m2. \<not> inuse obj \<and> refct obj = 1 \<and> ops_destroy ops = Some d
          \<and> d (obj\<lparr>refct := 0\<rparr>) (w_backend w) = Inr (obj2, m2) \<longrightarrow>
       VecScatterDestroy True ops w (Some p)
         = Inr (w\<lparr>w_objects := (w_objects w)(p := None),
                  w_device := (case spptr obj2 of None \<Rightarrow> w_device w
                               | Some h \<Rightarrow> (w_device w)[h := None]),
                  w_backend := m2\<rparr>, None)
       \<and> VecScatterDestroy False ops w (Some p)
         = Inr (w\<lparr>w_objects := (w_objects w)(p := None), w_backend := m2\<rparr>, None))
    \<and> (\<forall>d err obj2 m2. \<not> inuse obj \<and> refct obj = 1 \<and> ops_destroy ops = Some d
          \<and> d (obj\<lparr>refct := 0\<rparr>) (w_backend w) = Inl (err, (obj2, m2)) \<longrightarrow>
       VecScatterDestroy cuda ops w (Some p)
         = Inl (err, (w\<lparr>w_objects := (w_objects w)(p \<mapsto> obj2), w_backend := m2\<rparr>, Some p)))
    \<and> (\<forall>w'. \<not> 1 < refct obj \<and> VecScatterDestroy cuda ops w (Some p) = Inr (w', None) \<longrightarrow>
       w_objects w' p = None
       \<and> (ops_destroy ops = None \<longrightarrow>
            w_backend w' = w_backend w
            \<and> (\<forall>h. cuda \<and> spptr obj = Some h \<longrightarrow> device_mirror (w_device w') h = None))
       \<and> (\<forall>d obj2 m2. ops_destroy ops = Some d
              \<and> d (obj\<lparr>refct := refct obj - 1\<rparr>) (w_backend w) = Inr (obj2, m2) \<longrightarrow>
            w_backend w' = m2
            \<and> (\<forall>h. cuda \<and> spptr obj2 = Some h \<longrightarrow> device_mirror (w_device w') h = None)))"
proof -
  have 1: "inuse obj \<and> refct obj = 1 \<longrightarrow>
       VecScatterDestroy cuda ops w (Some p)
         = Inl (SETERRQ PETSC_ERR_ARG_WRONGSTATE ''Scatter context is in use'', (w, Some p))"
    using assms by (simp add: VecScatterDestroy_def)
  have 2: "1 < refct obj \<longrightarrow>
       VecScatterDestroy cuda ops w (Some p)
         = Inr (w\<lparr>w_objects := (w_objects w)(p \<mapsto> obj\<lparr>refct := refct obj - 1\<rparr>)\<rparr>, None)"
    using assms by (simp add: VecScatterDestroy_def Let_def)
  have 3: "\<not> inuse obj \<and> refct obj = 1 \<and> ops_destroy ops = None \<longrightarrow>
       VecScatterDestroy True ops w (Some p)
         = Inr (w\<lparr>w_objects := (w_objects w)(p := None),
                  w_device := (case spptr obj of None \<Rightarrow> w_device w
                               | Some h \<Rightarrow> (w_device w)[h := None])\<rparr>, None)
       \<and> VecScatterDestroy False ops w (Some p)
         = Inr (w\<lparr>w_objects := (w_objects w)(p := None)\<rparr>, None)"
    using assms
    by (simp add: VecScatterDestroy_def VecScatterCUDAIndicesDestroy_def Let_def
        split: option.splits)
  have 4: "\<forall>d obj2 m2. \<not> inuse obj \<and> refct obj = 1 \<and> ops_destroy ops = Some d
          \<and> d (obj\<lparr>refct := 0\<rparr>) (w_backend w) = Inr (obj2, m2) \<longrightarrow>
       VecScatterDestroy True ops w (Some p)
         = Inr (w\<lparr>w_objects := (w_objects w)(p := None),
                  w_device := (case spptr obj2 of None \<Rightarrow> w_device w
                               | Some h \<Rightarrow> (w_device w)[h := None]),
                  w_backend := m2\<rparr>, None)
       \<and> VecScatterDestroy False ops w (Some p)
         = Inr (w\<lparr>w_objects := (w_objects w)(p := None), w_backend := m2\<rparr>, None)"
    using assms
    by (simp add: VecScatterDestroy_def VecScatterCUDAIndicesDestroy_def Let_def
        split: option.splits)
  have 5: "\<forall>d err obj2 m2. \<not> inuse obj \<and> refct obj = 1 \<and> ops_destroy ops = Some d
          \<and> d (obj\<lparr>refct := 0\<rparr>) (w_backend w) = Inl (err, (obj2, m2)) \<longrightarrow>
       VecScatterDestroy cuda ops w (Some p)
         = Inl (err, (w\<lparr>w_objects := (w_objects w)(p \<mapsto> obj2), w_backend := m2\<rparr>, Some p))"
    using assms by (simp add: VecScatterDestroy_def Let_def)
  have 6: "\<forall>w'. \<not> 1 < refct obj \<and> VecScatterDestroy cuda ops w (Some p) = Inr (w', None) \<longrightarrow>
       w_objects w' p = None
       \<and> (ops_destroy ops = None \<longrightarrow>
            w_backend w' = w_backend w
            \<and> (\<forall>h. cuda \<and> spptr obj = Some h \<longrightarrow> device_mirror (w_device w') h = None))
       \<and> (\<forall>d obj2 m2. ops_destroy ops = Some d
              \<and> d (obj\<lparr>refct := refct obj - 1\<rparr>) (w_backend w) = Inr (obj2, m2) \<longrightarrow>
            w_backend w' = m2
            \<and> (\<forall>h. cuda \<and> spptr obj2 = Some h \<longrightarrow> device_mirror (w_device w') h = None))"
    using assms
    by (auto simp: VecScatterDestroy_def VecScatterCUDAIndicesDestroy_def Let_def
        device_mirror_def split: if_splits option.splits sum.splits prod.splits)
  from 1 2 3 4 5 6 show ?thesis by blast
qed

text \<open>The scenario of the spec in a CUDA build, on a context with a device mirror and a
  backend that holds two blocks: the first Destroy takes the count from 2 to 1 and frees
  nothing; the second frees the blocks, the mirror and the header. A last owner cannot
  destroy a context in use.\<close>

theorem VecScatterDestroy_refct_witness:
  "VecScatterDestroy True free_ops (world_of (seq_ctx\<lparr>refct := 2, spptr := Some 0\<rparr>)) (Some 0)
      = Inr (world_of (seq_ctx\<lparr>spptr := Some 0\<rparr>), None)
   \<and> w_device (world_of (seq_ctx\<lparr>spptr := Some 0\<rparr>)) = [Some mirror0]
   \<and> w_backend (world_of (seq_ctx\<lparr>spptr := Some 0\<rparr>)) = [7, 8]
   \<and> VecScatterDestroy True free_ops (world_of (seq_ctx\<lparr>spptr := Some 0\<rparr>)) (Some 0)
      = Inr (\<lparr>w_objects = Map.empty, w_device = [None], w_backend = []\<rparr>, None)
   \<and> device_mirror [None] 0 = None
   \<and> VecScatterDestroy True free_ops (world_of (seq_ctx\<lparr>inuse := True, spptr := Some 0\<rparr>)) (Some 0)
      = Inl (SETERRQ PETSC_ERR_ARG_WRONGSTATE ''Scatter context is in use'',
             (world_of (seq_ctx\<lparr>inuse := True, spptr := Some 0\<rparr>), Some 0))"
proof -
  have o: "w_objects (world_of c) 0 = Some c" for c by (simp add: world_of_def)
  have v: "refct seq_ctx = 1" "\<not> inuse seq_ctx" "ops_destroy free_ops = Some free_blocks"
    "seq_ctx\<lparr>spptr := Some 0, refct := 1\<rparr> = seq_ctx\<lparr>spptr := Some 0\<rparr>"
    "free_blocks c m = Inr (c, [])" for c m
    by (simp_all add: seq_ctx_def ctx_of_def free_ops_def free_blocks_def)
  from VecScatterDestroy_refct[OF o, of "seq_ctx\<lparr>refct := 2, spptr := Some 0\<rparr>" True free_ops] v
  have a: "VecScatterDestroy True free_ops (world_of (seq_ctx\<lparr>refct := 2, spptr := Some 0\<rparr>)) (Some 0)
      = Inr (world_of (seq_ctx\<lparr>spptr := Some 0\<rparr>), None)"
    by (simp add: world_of_def)
  from VecScatterDestroy_refct[OF o, of "seq_ctx\<lparr>spptr := Some 0\<rparr>" True free_ops] v
  have b: "VecScatterDestroy True free_ops (world_of (seq_ctx\<lparr>spptr := Some 0\<rparr>)) (Some 0)
      = Inr (\<lparr>w_objects = Map.empty, w_device = [None], w_backend = []\<rparr>, None)"
    by (simp add: world_of_def)
  from VecScatterDestroy_refct[OF o, of "seq_ctx\<lparr>inuse := True, spptr := Some 0\<rparr>" True free_ops] v
  have d: "VecScatterDestroy True free_ops (world_of (seq_ctx\<lparr>inuse := True, spptr := Some 0\<rparr>))
        (Some 0)
      = Inl (SETERRQ PETSC_ERR_ARG_WRONGSTATE ''Scatter context is in use'',
             (world_of (seq_ctx\<lparr>inuse := True, spptr := Some 0\<rparr>), Some 0))"
    by simp
  have e: "w_device (world_of (seq_ctx\<lparr>spptr := Some 0\<rparr>)) = [Some mirror0]"
    "w_backend (world_of (seq_ctx\<lparr>spptr := Some 0\<rparr>)) = [7, 8]"
    "device_mirror [None] 0 = None"
    by (simp_all add: world_of_def device_mirror_def)
  from a b d e show ?thesis by simp
qed

subsection \<open>Device initialisation: the expansion loops in closed form\<close>

text \<open>Inside the range of a \<^verbatim>\<open>PetscInt\<close> the wrap does nothing; outside it shows, as in the
  expansion of the largest index into a block of two.\<close>

lemma PetscInt_of_id:
  assumes "PETSC_MIN_INT \<le> v" and "v \<le> PETSC_MAX_INT"
  shows "PetscInt_of v = v"
  using assms by (simp add: PetscInt_of_def PETSC_MIN_INT_def PETSC_MAX_INT_def)

lemma expand_inner_length: "length (expand_inner bs t i k s) = length s"
proof (induction bs t i k s rule: expand_inner.induct)
  case (1 bs t i k s)
  show ?case
  proof (cases "k < bs")
    case True
    with 1 show ?thesis by (subst expand_inner.simps) simp
  next
    case False
    then show ?thesis by (subst expand_inner.simps) simp
  qed
qed

lemma expand_outer_length: "length (expand_outer bs t ns i s) = length s"
proof (induction bs t ns i s rule: expand_outer.induct)
  case (1 bs t ns i s)
  show ?case
  proof (cases "i < ns")
    case True
    with 1 show ?thesis by (subst expand_outer.simps) (simp add: expand_inner_length)
  next
    case False
    then show ?thesis by (subst expand_outer.simps) simp
  qed
qed

lemma expand_inner_nth:
  "0 \<le> i \<Longrightarrow> 0 \<le> k \<Longrightarrow> j < length s \<Longrightarrow>
   i * bs + bs - 1 \<le> PETSC_MAX_INT \<Longrightarrow>
   PETSC_MIN_INT \<le> t ! nat i \<Longrightarrow> t ! nat i + bs - 1 \<le> PETSC_MAX_INT \<Longrightarrow>
     expand_inner bs t i k s ! j =
       (if i * bs + k \<le> int j \<and> int j < i * bs + bs then t ! nat i + (int j - i * bs)
        else s ! j)"
proof (induction bs t i k s rule: expand_inner.induct)
  case (1 bs t i k s)
  show ?case
  proof (cases "k < bs")
    case True
    define m where "m = i * bs"
    from True 1(2,3) have "0 \<le> bs" by simp
    with 1(2) have m0: "0 \<le> m" unfolding m_def by simp
    have neg: "PETSC_MIN_INT \<le> 0" by (simp add: PETSC_MIN_INT_def PETSC_MAX_INT_def)
    from 1(5) True 1(3) m0 have mr: "m \<le> PETSC_MAX_INT" "m + k \<le> PETSC_MAX_INT"
      unfolding m_def by linarith+
    have w1: "PetscInt_of (i * bs) = m"
      unfolding m_def[symmetric] using m0 mr neg by (intro PetscInt_of_id) linarith+
    have w2: "PetscInt_of (m + k) = m + k"
      using m0 mr neg 1(3) by (intro PetscInt_of_id) linarith+
    have w3: "PetscInt_of (t ! nat i + k) = t ! nat i + k"
      using 1(6,7) True 1(3) by (intro PetscInt_of_id) linarith+
    let ?s' = "s[nat (m + k) := t ! nat i + k]"
    have step: "expand_inner bs t i k s = expand_inner bs t i (k + 1) ?s'"
      using True by (subst expand_inner.simps) (simp add: w1 w2 w3)
    have eqs: "s[nat (PetscInt_of (PetscInt_of (i * bs) + k)) := PetscInt_of (t ! nat i + k)] = ?s'"
      by (simp add: w1 w2 w3)
    from 1(2,3,4) have pre: "0 \<le> i" "0 \<le> k + 1"
      "j < length (s[nat (PetscInt_of (PetscInt_of (i * bs) + k)) := PetscInt_of (t ! nat i + k)])"
      by simp_all
    have ih: "expand_inner bs t i (k + 1) ?s' ! j =
       (if i * bs + (k + 1) \<le> int j \<and> int j < i * bs + bs then t ! nat i + (int j - i * bs)
        else ?s' ! j)"
      using "1.IH"[OF True pre 1(5,6,7)] unfolding eqs .
    have upd: "?s' ! j = (if int j = m + k then t ! nat i + k else s ! j)"
      using 1(3,4) m0
      by (auto simp: nth_list_update nat_eq_iff)
    show ?thesis
      unfolding step ih upd unfolding m_def[symmetric]
      using True by auto
  next
    case False
    then show ?thesis by (subst expand_inner.simps) auto
  qed
qed

lemma row_div_mod:
  fixes b q j :: nat
  assumes "q * b \<le> j" and "j < q * b + b"
  shows "j div b = q" and "j mod b = j - q * b"
proof -
  from assms have b: "0 < b" by (cases b) auto
  from assms show d: "j div b = q"
    by (intro div_nat_eqI) (simp_all add: mult.commute)
  have "j mod b = j - (j div b) * b"
    by (simp add: minus_div_mult_eq_mod)
  with d show "j mod b = j - q * b" by simp
qed

lemma expand_outer_nth:
  "0 \<le> i \<Longrightarrow> 0 < bs \<Longrightarrow> j < length s \<Longrightarrow>
   ns * bs \<le> PETSC_MAX_INT \<Longrightarrow>
   (\<And>q. i \<le> q \<Longrightarrow> q < ns \<Longrightarrow>
      PETSC_MIN_INT \<le> t ! nat q \<and> t ! nat q + bs - 1 \<le> PETSC_MAX_INT) \<Longrightarrow>
     expand_outer bs t ns i s ! j =
       (if i * bs \<le> int j \<and> int j < ns * bs then t ! (j div nat bs) + int (j mod nat bs)
        else s ! j)"
proof (induction bs t ns i s rule: expand_outer.induct)
  case (1 bs t ns i s)
  show ?case
  proof (cases "i < ns")
    case True
    let ?s' = "expand_inner bs t i 0 s"
    have step: "expand_outer bs t ns i s = expand_outer bs t ns (i + 1) ?s'"
      using True by (subst expand_outer.simps) simp
    from 1(2,3,4) have pre: "0 \<le> i + 1" "0 < bs" "j < length ?s'"
      by (simp_all add: expand_inner_length)
    have rng: "PETSC_MIN_INT \<le> t ! nat q \<and> t ! nat q + bs - 1 \<le> PETSC_MAX_INT"
      if "i + 1 \<le> q" and "q < ns" for q
      using that 1(6)[of q] by simp
    have ih: "expand_outer bs t ns (i + 1) ?s' ! j =
       (if (i + 1) * bs \<le> int j \<and> int j < ns * bs then t ! (j div nat bs) + int (j mod nat bs)
        else ?s' ! j)"
      by (rule "1.IH"[OF True pre 1(5) rng])
    have le: "(i + 1) * bs \<le> ns * bs"
      using True 1(3) by (intro mult_right_mono) simp_all
    have split: "(i + 1) * bs = i * bs + bs" by (simp add: algebra_simps)
    from le 1(5) have rowmax: "i * bs + bs - 1 \<le> PETSC_MAX_INT" unfolding split by linarith
    from 1(6)[of i] True have ti: "PETSC_MIN_INT \<le> t ! nat i" "t ! nat i + bs - 1 \<le> PETSC_MAX_INT"
      by simp_all
    have inner: "?s' ! j =
       (if i * bs \<le> int j \<and> int j < i * bs + bs then t ! nat i + (int j - i * bs) else s ! j)"
      using expand_inner_nth[OF 1(2) _ 1(4) rowmax ti, of 0] by simp
    have row: "t ! nat i + (int j - i * bs) = t ! (j div nat bs) + int (j mod nat bs)"
      if "i * bs \<le> int j" and "int j < i * bs + bs"
    proof -
      have ib: "i * bs = int (nat i * nat bs)" using 1(2,3) by (simp add: nat_mult_distrib)
      from that ib have lo: "nat i * nat bs \<le> j" by linarith
      moreover from that ib 1(3) have "j < nat i * nat bs + nat bs" by linarith
      ultimately have "j div nat bs = nat i" "j mod nat bs = j - nat i * nat bs"
        by (rule row_div_mod)+
      moreover from lo ib have "int (j - nat i * nat bs) = int j - i * bs"
        by simp
      ultimately show ?thesis by simp
    qed
    show ?thesis
      unfolding step ih inner using le row 1(3) unfolding split by auto
  next
    case False
    with 1(3) have "ns * bs \<le> i * bs" by (intro mult_right_mono) simp_all
    with False show ?thesis by (subst expand_outer.simps) auto
  qed
qed

lemma expand_indices_length:
  assumes "0 \<le> bs * ns" and "bs * ns \<le> PETSC_MAX_INT"
  shows "length (expand_indices bs ns t) = nat (bs * ns)"
proof -
  have "PETSC_MIN_INT \<le> 0" by (simp add: PETSC_MIN_INT_def PETSC_MAX_INT_def)
  with assms have "PetscInt_of (bs * ns) = bs * ns" by (intro PetscInt_of_id) linarith+
  then show ?thesis by (simp add: expand_indices_def expand_outer_length)
qed

lemma expand_indices_nth:
  assumes "0 < bs" and "j < nat (bs * ns)" and "bs * ns \<le> PETSC_MAX_INT"
    and "\<And>q. 0 \<le> q \<Longrightarrow> q < ns \<Longrightarrow>
           PETSC_MIN_INT \<le> t ! nat q \<and> t ! nat q + bs - 1 \<le> PETSC_MAX_INT"
  shows "expand_indices bs ns t ! j = t ! (j div nat bs) + int (j mod nat bs)"
proof -
  from assms(2) have pos: "0 \<le> bs * ns" and j: "int j < ns * bs" by (simp_all add: mult.commute)
  from assms(3) have m: "ns * bs \<le> PETSC_MAX_INT" by (simp add: mult.commute)
  have "PETSC_MIN_INT \<le> 0" by (simp add: PETSC_MIN_INT_def PETSC_MAX_INT_def)
  with pos assms(3) have w: "PetscInt_of (bs * ns) = bs * ns" by (intro PetscInt_of_id) linarith+
  have l: "j < length (replicate (nat (bs * ns)) (0::int))" using assms(2) by simp
  have "expand_outer bs t ns 0 (replicate (nat (bs * ns)) 0) ! j =
       (if 0 * bs \<le> int j \<and> int j < ns * bs then t ! (j div nat bs) + int (j mod nat bs)
        else replicate (nat (bs * ns)) 0 ! j)"
    by (rule expand_outer_nth[OF _ assms(1) l m assms(4)]) simp_all
  with j show ?thesis by (simp add: expand_indices_def w)
qed

lemma expand_indices_set:
  assumes bs: "0 < bs"
    and size: "bs * int (length t) \<le> PETSC_MAX_INT"
    and range: "\<forall>v \<in> set t. PETSC_MIN_INT \<le> v \<and> v + bs - 1 \<le> PETSC_MAX_INT"
  shows "set (expand_indices bs (int (length t)) t) =
           {v + k |v k. v \<in> set t \<and> 0 \<le> k \<and> k < bs}"
proof -
  let ?e = "expand_indices bs (int (length t)) t"
  from bs have pos: "0 \<le> bs * int (length t)" by simp
  have len: "length ?e = nat bs * length t"
    using bs expand_indices_length[OF pos size] by (simp add: nat_mult_distrib)
  have rq: "PETSC_MIN_INT \<le> t ! nat q \<and> t ! nat q + bs - 1 \<le> PETSC_MAX_INT"
    if "0 \<le> q" and "q < int (length t)" for q
  proof -
    from that have "t ! nat q \<in> set t" by simp
    with range show ?thesis by blast
  qed
  have nth: "?e ! j = t ! (j div nat bs) + int (j mod nat bs)" if "j < nat bs * length t" for j
  proof -
    from that bs have "j < nat (bs * int (length t))" by (simp add: nat_mult_distrib)
    from expand_indices_nth[OF bs this size rq] show ?thesis by simp
  qed
  show ?thesis
  proof (intro set_eqI iffI)
    fix w assume "w \<in> set ?e"
    then obtain j where j: "j < nat bs * length t" and w: "w = ?e ! j"
      unfolding in_set_conv_nth len by blast
    from j bs have q: "j div nat bs < length t"
      by (simp add: less_mult_imp_div_less mult.commute)
    from bs have r: "j mod nat bs < nat bs" by simp
    from w nth[OF j] have "w = t ! (j div nat bs) + int (j mod nat bs)" by simp
    moreover from q have "t ! (j div nat bs) \<in> set t" by simp
    moreover from r bs have "0 \<le> int (j mod nat bs) \<and> int (j mod nat bs) < bs" by linarith
    ultimately show "w \<in> {v + k |v k. v \<in> set t \<and> 0 \<le> k \<and> k < bs}" by blast
  next
    fix w assume "w \<in> {v + k |v k. v \<in> set t \<and> 0 \<le> k \<and> k < bs}"
    then obtain v k where v: "v \<in> set t" and k: "0 \<le> k" "k < bs" and w: "w = v + k" by blast
    from v obtain q where q: "q < length t" and tq: "t ! q = v"
      unfolding in_set_conv_nth by blast
    define j where "j = q * nat bs + nat k"
    from k have kb: "nat k < nat bs" by simp
    have "j < q * nat bs + nat bs" unfolding j_def using kb by simp
    also have "\<dots> = Suc q * nat bs" by simp
    also from q have "\<dots> \<le> length t * nat bs" by (intro mult_le_mono1) simp
    finally have jl: "j < nat bs * length t" by (simp add: mult.commute)
    have "j div nat bs = q" "j mod nat bs = nat k"
      unfolding j_def using kb by simp_all
    with nth[OF jl] tq k have "?e ! j = w" unfolding w by simp
    with jl len show "w \<in> set ?e" unfolding in_set_conv_nth by auto
  qed
qed

lemma PetscSortRemoveDupsInt_eq:
  "PetscSortRemoveDupsInt n a =
     (int (length (sort (remdups (take (nat n) a)))), sort (remdups (take (nat n) a)))"
  by (simp add: PetscSortRemoveDupsInt_def Let_def)

lemma VecScatterInitializeForGPU_PtoP_first:
  assumes "valid_GPU_array x \<noteq> PETSC_OFFLOAD_UNALLOCATED"
    and "mg_n to > 0 \<or> mg_n from > 0"
    and "spptr inctx = None"
  shows "\<exists>ci. VecScatterInitializeForGPU_PtoP inctx dev x to from
           = (inctx\<lparr>spptr := Some (length dev)\<rparr>, dev @ [Some ci])
    \<and> ci_ns ci = PetscInt_of
        (int (length (sort (remdups (take (nat (mg_starts to ! nat (mg_n to))) (mg_indices to)))))
          * mg_bs to)
    \<and> ci_sendIndices ci =
        expand_indices (mg_bs to)
          (int (length (sort (remdups (take (nat (mg_starts to ! nat (mg_n to))) (mg_indices to))))))
          (sort (remdups (take (nat (mg_starts to ! nat (mg_n to))) (mg_indices to))))"
  using assms
  by (auto simp: VecScatterInitializeForGPU_PtoP_def PetscSortRemoveDupsInt_eq Let_def
      VecScatterCUDAIndicesCreate_PtoP_def)

lemmas gpu_defs = VecScatterInitializeForGPU_def VecScatterInitializeForGPU_PtoP_def
  VecScatterIsSequential_Private_def mode_and_REVERSE_def PetscSortRemoveDupsInt_def
  expand_indices_def expand_outer.simps expand_inner.simps VecScatterCUDAIndicesCreate_PtoP_def
  PetscInt_of_def mpi_ctx_def mpi_to_def mpi_from_def ctx_of_def sg_of_def vec_of_size_def Let_def

lemma expand_indices_wraps: "expand_indices 2 1 [2147483647] = [2147483647, - 2147483648]"
  by (simp add: expand_indices_def expand_outer.simps expand_inner.simps PetscInt_of_def)
     (simp add: eval_nat_numeral)

subsection \<open>The claim on device initialisation\<close>

text \<open>
  C8, as the code has it. On the scenario of the spec (starts 0, 2, 5, local slots 20 and
  21) the send buffer holds the expanded message indices only: the local slot 20 is not
  in it.
\<close>

theorem VecScatterInitializeForGPU_send_indices_counterexample:
  "todata mpi_ctx = MPI_General mpi_to \<and> fromdata mpi_ctx = MPI_General mpi_from
   \<and> mg_starts mpi_to = [0, 2, 5] \<and> mg_indices mpi_to = [4, 7, 4, 9, 1]
   \<and> sg_vslots (mg_local mpi_to) = [20, 21]
   \<and> VecScatterInitializeForGPU mpi_ctx [] (vec_of_size 3) SCATTER_FORWARD
      = Some (Inr (mpi_ctx\<lparr>spptr := Some 0\<rparr>,
                   [Some \<lparr>ci_ns = 8, ci_sendIndices = [1, 2, 4, 5, 7, 8, 9, 10],
                          ci_nr = 4, ci_recvIndices = [5, 6, 6, 7]\<rparr>]))
   \<and> 20 \<notin> set [1, 2, 4, 5, 7, 8, 9, 10 :: int]"
  by (simp add: gpu_defs) (simp add: eval_nat_numeral)

text \<open>
  C8 (amended). Let both sides be distributed-general, \<open>to\<close> the side the mode makes
  the sending one (\<^verbatim>\<open>todata\<close>, or \<^verbatim>\<open>fromdata\<close> under reverse), the source vector allocated on
  the device, at least one message on either side, and no device mirror yet (the first
  call). Let the block size be at least 1 and the arithmetic stay inside a \<^verbatim>\<open>PetscInt\<close>:
  every message index \<open>v\<close> and its last component \<open>v + bs - 1\<close> are in range, and so is
  the block size times the number of distinct message indices. Then
  \<^verbatim>\<open>VecScatterInitializeForGPU\<close> succeeds and makes the mirror in the device store, whose
  send buffer is the block expansion of the surviving indices: the message indices of
  all peers (the first \<^verbatim>\<open>starts[n]\<close> entries of the to side's index buffer), sorted and
  without duplicates, each followed by its next \<open>bs - 1\<close> successors. As a set, the
  buffer is exactly the indices \<open>v + k\<close> for \<open>v\<close> a message index and \<open>0 \<le> k < bs\<close>.
  The local slots of the to side take no part.
\<close>

theorem VecScatterInitializeForGPU_send_indices:
  assumes sides: "(if mode_and_REVERSE mode then (fromdata inctx, todata inctx)
                   else (todata inctx, fromdata inctx)) = (MPI_General to, MPI_General from)"
    and gpu: "valid_GPU_array x \<noteq> PETSC_OFFLOAD_UNALLOCATED"
    and some: "mg_n to > 0 \<or> mg_n from > 0"
    and first: "spptr inctx = None"
    and bs: "1 \<le> mg_bs to"
    and range: "\<forall>v \<in> set (take (nat (mg_starts to ! nat (mg_n to))) (mg_indices to)).
                  PETSC_MIN_INT \<le> v \<and> v + mg_bs to - 1 \<le> PETSC_MAX_INT"
    and size: "mg_bs to
                 * int (length (remdups (take (nat (mg_starts to ! nat (mg_n to))) (mg_indices to))))
               \<le> PETSC_MAX_INT"
  shows "\<exists>ci surv.
    VecScatterInitializeForGPU inctx dev x mode
      = Some (Inr (inctx\<lparr>spptr := Some (length dev)\<rparr>, dev @ [Some ci]))
    \<and> device_mirror (dev @ [Some ci]) (length dev) = Some ci
    \<and> surv = sort (remdups (take (nat (mg_starts to ! nat (mg_n to))) (mg_indices to)))
    \<and> ci_ns ci = mg_bs to * int (length surv)
    \<and> length (ci_sendIndices ci) = nat (mg_bs to * int (length surv))
    \<and> (\<forall>j < length (ci_sendIndices ci).
          ci_sendIndices ci ! j = surv ! (j div nat (mg_bs to)) + int (j mod nat (mg_bs to)))
    \<and> set (ci_sendIndices ci) =
        {v + k |v k. v \<in> set (take (nat (mg_starts to ! nat (mg_n to))) (mg_indices to))
                     \<and> 0 \<le> k \<and> k < mg_bs to}"
proof -
  define surv where "surv = sort (remdups (take (nat (mg_starts to ! nat (mg_n to))) (mg_indices to)))"
  have sl: "length surv = length (remdups (take (nat (mg_starts to ! nat (mg_n to))) (mg_indices to)))"
    and ss: "set surv = set (take (nat (mg_starts to ! nat (mg_n to))) (mg_indices to))"
    by (simp_all add: surv_def)
  from bs have bs0: "0 < mg_bs to" by simp
  from size sl have sz: "mg_bs to * int (length surv) \<le> PETSC_MAX_INT" by simp
  from range ss have rg: "\<forall>v \<in> set surv. PETSC_MIN_INT \<le> v \<and> v + mg_bs to - 1 \<le> PETSC_MAX_INT"
    by simp
  from bs0 have pos: "0 \<le> mg_bs to * int (length surv)" by simp
  from VecScatterInitializeForGPU_PtoP_first[OF gpu some first, of dev]
  obtain ci where run: "VecScatterInitializeForGPU_PtoP inctx dev x to from
        = (inctx\<lparr>spptr := Some (length dev)\<rparr>, dev @ [Some ci])"
    and cns: "ci_ns ci = PetscInt_of (int (length surv) * mg_bs to)"
    and send: "ci_sendIndices ci = expand_indices (mg_bs to) (int (length surv)) surv"
    unfolding surv_def by blast
  from sides have fmt: "format (todata inctx) = VEC_SCATTER_MPI_GENERAL"
    "format (fromdata inctx) = VEC_SCATTER_MPI_GENERAL"
    by (auto split: if_splits)
  from sides run fmt have r: "VecScatterInitializeForGPU inctx dev x mode
      = Some (Inr (inctx\<lparr>spptr := Some (length dev)\<rparr>, dev @ [Some ci]))"
    by (simp add: VecScatterInitializeForGPU_def VecScatterIsSequential_Private_def Let_def)
  have dm: "device_mirror (dev @ [Some ci]) (length dev) = Some ci"
    by (simp add: device_mirror_def)
  have "PETSC_MIN_INT \<le> 0" by (simp add: PETSC_MIN_INT_def PETSC_MAX_INT_def)
  with pos sz have "PetscInt_of (mg_bs to * int (length surv)) = mg_bs to * int (length surv)"
    by (intro PetscInt_of_id) linarith+
  with cns have c: "ci_ns ci = mg_bs to * int (length surv)" by (simp add: mult.commute)
  have l: "length (ci_sendIndices ci) = nat (mg_bs to * int (length surv))"
    unfolding send by (rule expand_indices_length[OF pos sz])
  have rq: "PETSC_MIN_INT \<le> surv ! nat q \<and> surv ! nat q + mg_bs to - 1 \<le> PETSC_MAX_INT"
    if "0 \<le> q" and "q < int (length surv)" for q
  proof -
    from that have "surv ! nat q \<in> set surv" by simp
    with rg show ?thesis by blast
  qed
  have n: "ci_sendIndices ci ! j = surv ! (j div nat (mg_bs to)) + int (j mod nat (mg_bs to))"
    if "j < length (ci_sendIndices ci)" for j
  proof -
    from that l have j: "j < nat (mg_bs to * int (length surv))" by simp
    from expand_indices_nth[OF bs0 j sz rq] show ?thesis unfolding send by simp
  qed
  have s: "set (ci_sendIndices ci) =
        {v + k |v k. v \<in> set (take (nat (mg_starts to ! nat (mg_n to))) (mg_indices to))
                     \<and> 0 \<le> k \<and> k < mg_bs to}"
    unfolding send expand_indices_set[OF bs0 sz rg] ss ..
  from r dm c l n s surv_def show ?thesis by blast
qed

theorem VecScatterInitializeForGPU_send_indices_witness:
  "VecScatterInitializeForGPU mpi_ctx [] (vec_of_size 3) SCATTER_FORWARD
      = Some (Inr (mpi_ctx\<lparr>spptr := Some 0\<rparr>,
                   [Some \<lparr>ci_ns = 8, ci_sendIndices = [1, 2, 4, 5, 7, 8, 9, 10],
                          ci_nr = 4, ci_recvIndices = [5, 6, 6, 7]\<rparr>]))
   \<and> set [1, 2, 4, 5, 7, 8, 9, 10]
      = {v + k |v k. v \<in> set [4, 7, 4, 9, 1 :: int] \<and> 0 \<le> k \<and> k < 2}
   \<and> VecScatterInitializeForGPU mpi_ctx [] (vec_of_size 3) SCATTER_REVERSE
      = Some (Inr (mpi_ctx\<lparr>spptr := Some 0\<rparr>,
                   [Some \<lparr>ci_ns = 4, ci_sendIndices = [5, 6, 6, 7],
                          ci_nr = 8, ci_recvIndices = [1, 2, 4, 5, 7, 8, 9, 10]\<rparr>]))"
proof -
  have fwd: "VecScatterInitializeForGPU mpi_ctx [] (vec_of_size 3) SCATTER_FORWARD
      = Some (Inr (mpi_ctx\<lparr>spptr := Some 0\<rparr>,
                   [Some \<lparr>ci_ns = 8, ci_sendIndices = [1, 2, 4, 5, 7, 8, 9, 10],
                          ci_nr = 4, ci_recvIndices = [5, 6, 6, 7]\<rparr>]))"
    by (simp add: gpu_defs) (simp add: eval_nat_numeral)
  have rev: "VecScatterInitializeForGPU mpi_ctx [] (vec_of_size 3) SCATTER_REVERSE
      = Some (Inr (mpi_ctx\<lparr>spptr := Some 0\<rparr>,
                   [Some \<lparr>ci_ns = 4, ci_sendIndices = [5, 6, 6, 7],
                          ci_nr = 8, ci_recvIndices = [1, 2, 4, 5, 7, 8, 9, 10]\<rparr>]))"
    by (simp add: gpu_defs) (simp add: eval_nat_numeral)
  have sides: "(if mode_and_REVERSE SCATTER_FORWARD then (fromdata mpi_ctx, todata mpi_ctx)
                else (todata mpi_ctx, fromdata mpi_ctx)) = (MPI_General mpi_to, MPI_General mpi_from)"
    by (simp add: mode_and_REVERSE_def mpi_ctx_def ctx_of_def)
  have gpu: "valid_GPU_array (vec_of_size 3) \<noteq> PETSC_OFFLOAD_UNALLOCATED"
    by (simp add: vec_of_size_def)
  have some: "mg_n mpi_to > 0 \<or> mg_n mpi_from > 0" by (simp add: mpi_to_def)
  have first: "spptr mpi_ctx = None" by (simp add: mpi_ctx_def ctx_of_def)
  have idx: "take (nat (mg_starts mpi_to ! nat (mg_n mpi_to))) (mg_indices mpi_to) = [4, 7, 4, 9, 1]"
    "mg_bs mpi_to = 2"
    by (simp_all add: mpi_to_def)
  have bs: "1 \<le> mg_bs mpi_to" by (simp add: idx)
  have range: "\<forall>v \<in> set (take (nat (mg_starts mpi_to ! nat (mg_n mpi_to))) (mg_indices mpi_to)).
                  PETSC_MIN_INT \<le> v \<and> v + mg_bs mpi_to - 1 \<le> PETSC_MAX_INT"
    by (simp add: idx PETSC_MIN_INT_def PETSC_MAX_INT_def)
  have size: "mg_bs mpi_to
       * int (length (remdups (take (nat (mg_starts mpi_to ! nat (mg_n mpi_to))) (mg_indices mpi_to))))
       \<le> PETSC_MAX_INT"
    by (simp add: idx PETSC_MAX_INT_def)
  from VecScatterInitializeForGPU_send_indices[OF sides gpu some first bs range size, of "[]"]
  obtain ci where run: "VecScatterInitializeForGPU mpi_ctx [] (vec_of_size 3) SCATTER_FORWARD
        = Some (Inr (mpi_ctx\<lparr>spptr := Some (length ([] :: DeviceStore))\<rparr>, [] @ [Some ci]))"
    and set: "set (ci_sendIndices ci)
        = {v + k |v k. v \<in> set [4, 7, 4, 9, 1] \<and> 0 \<le> k \<and> k < 2}"
    unfolding idx by blast
  from run fwd have "ci = \<lparr>ci_ns = 8, ci_sendIndices = [1, 2, 4, 5, 7, 8, 9, 10],
                          ci_nr = 4, ci_recvIndices = [5, 6, 6, 7]\<rparr>"
    by simp
  then have "ci_sendIndices ci = [1, 2, 4, 5, 7, 8, 9, 10]" by simp
  with set have "set [1, 2, 4, 5, 7, 8, 9, 10]
      = {v + k |v k. v \<in> set [4, 7, 4, 9, 1 :: int] \<and> 0 \<le> k \<and> k < 2}"
    by simp
  with fwd rev show ?thesis by blast
qed

end
